theory Spec2Isabelle
  imports Complex_Main
begin

section \<open>Numbers, errors and the seismic record\<close>

text \<open>
  The dialog of \<^verbatim>\<open>takanamidialog.py\<close> mixes Python integers and floats: the sample
  rate \<^verbatim>\<open>record.fs\<close> and the product \<^verbatim>\<open>MINIMUM_MARGIN_IN_SECS * fs\<close> are floats,
  sample indices are integers. The embedding keeps the numeric value only, as an exact
  rational (\<^typ>\<open>rat\<close>): every finite double is one. Python's \<^verbatim>\<open>int(x)\<close> truncates
  towards zero.
\<close>

definition py_int :: "rat \<Rightarrow> int" where
  "py_int x = (if x < 0 then \<lceil>x\<rceil> else \<lfloor>x\<rfloor>)"

definition MINIMUM_MARGIN_IN_SECS :: rat where
  "MINIMUM_MARGIN_IN_SECS = 1 / 2"

text \<open>
  A product or quotient of two doubles is the double nearest to the exact result, and
  where the file truncates such a result with \<^verbatim>\<open>int\<close> (lines 105, 106, 181, 200, 209
  and 231) the rounding can decide the index: at 100 Hz the double for
  \<^verbatim>\<open>(290 / 1000.0) * 100.0\<close> lies just below 29 and truncates to 28. Which double is
  nearest is not fixed here: the rounding \<open>rnd\<close> of the floating point unit is a
  parameter of every operation that truncates, and the properties below hold for each
  rounding. Only this is built in: zero is a double, so an exact result of zero is not
  rounded. The other float operations of the file feed no truncation and no comparison
  that rounding could turn; they are computed exactly.
\<close>

type_synonym rounding = "rat \<Rightarrow> rat"

definition fl_mul :: "rounding \<Rightarrow> rat \<Rightarrow> rat \<Rightarrow> rat" where
  "fl_mul rnd x y = (if x * y = 0 then 0 else rnd (x * y))"

text \<open>The quotient, for a divisor that is not zero (a zero divisor raises in Python).\<close>

definition fl_div :: "rounding \<Rightarrow> rat \<Rightarrow> rat \<Rightarrow> rat" where
  "fl_div rnd x y = (if x / y = 0 then 0 else rnd (x / y))"

datatype error =
    ValueError string
  | ZeroDivisionError
  | AlgorithmError string

text \<open>
  \<^verbatim>\<open>record.fs\<close> and \<^verbatim>\<open>record.signal\<close>: the only two attributes of the seismic
  record that the file reads.
\<close>

record seismic_record =
  fs :: rat
  signal :: "rat list"

definition signal_len :: "seismic_record \<Rightarrow> rat" where
  "signal_len r = of_nat (length (signal r))"

section \<open>TakanamiTask\<close>

text \<open>
  The estimation algorithm (\<^verbatim>\<open>takanami.Takanami().run\<close>) is not part of the file. It
  is a parameter of the model: a function of the signal, the sample rate and the two
  times in seconds that either raises or returns \<^verbatim>\<open>(et, aic, n0_aic)\<close>.
\<close>

type_synonym estimate = "int \<times> rat list \<times> int"

type_synonym algorithm = "rat list \<Rightarrow> rat \<Rightarrow> rat \<Rightarrow> rat \<Rightarrow> error + estimate"

text \<open>The two Qt signals of the task, as the values a listener receives.\<close>

datatype task_signal =
    position_estimated int "rat list" int
  | finished

text \<open>
  \<^verbatim>\<open>run()\<close> executes on a worker thread while \<^verbatim>\<open>abort()\<close> may be called from
  another one, so \<^verbatim>\<open>run()\<close> is cut into its steps and the position reached is part
  of the task's state:
  \<^item> \<open>NotStarted\<close>: \<^verbatim>\<open>run()\<close> has not begun;
  \<^item> \<open>AtCheckpoint1 s e\<close>: the flag is reset and the two times are computed (lines 69-72);
  \<^item> \<open>InAlgorithm s e\<close>: the first checkpoint is passed, the algorithm is executing;
  \<^item> \<open>AtCheckpoint2 r\<close>: the algorithm has returned \<open>r\<close> (line 75);
  \<^item> \<open>EmittedPosition\<close>: the second checkpoint is passed and \<^verbatim>\<open>position_estimated\<close> is sent;
  \<^item> \<open>Returned\<close>: \<^verbatim>\<open>run()\<close> has returned;
  \<^item> \<open>Raised err\<close>: an exception has left \<^verbatim>\<open>run()\<close>.
\<close>

datatype run_pc =
    NotStarted
  | AtCheckpoint1 rat rat
  | InAlgorithm rat rat
  | AtCheckpoint2 estimate
  | EmittedPosition
  | Returned
  | Raised error

text \<open>
  The fields \<^verbatim>\<open>record\<close>, \<^verbatim>\<open>start\<close>, \<^verbatim>\<open>end\<close> and \<^verbatim>\<open>_abort\<close> of the class, the
  position inside \<^verbatim>\<open>run()\<close>, the signals sent so far (oldest first) and the calls made
  to the algorithm so far, each with its four arguments.
\<close>

record task =
  task_record :: seismic_record
  task_start :: rat
  task_end :: rat
  task_abort :: bool
  pc :: run_pc
  emitted :: "task_signal list"
  algorithm_calls :: "(rat list \<times> rat \<times> rat \<times> rat) list"

definition TakanamiTask_init :: "seismic_record \<Rightarrow> rat \<Rightarrow> rat \<Rightarrow> task" where
  "TakanamiTask_init r s e =
     \<lparr>task_record = r, task_start = s, task_end = e, task_abort = False,
      pc = NotStarted, emitted = [], algorithm_calls = []\<rparr>"

definition start_time_in_secs :: "task \<Rightarrow> rat" where
  "start_time_in_secs t = max 0 (task_start t) / fs (task_record t)"

definition end_time_in_secs :: "task \<Rightarrow> rat" where
  "end_time_in_secs t = min (signal_len (task_record t)) (task_end t) / fs (task_record t)"

definition abort :: "task \<Rightarrow> task" where
  "abort t = t\<lparr>task_abort := True\<rparr>"

text \<open>One step of \<^verbatim>\<open>run()\<close>. Dividing by a zero sample rate raises, as in Python.\<close>

fun run_step :: "algorithm \<Rightarrow> task \<Rightarrow> task" where
  "run_step alg t =
     (case pc t of
        NotStarted \<Rightarrow>
          (let t1 = t\<lparr>task_abort := False\<rparr> in
           if fs (task_record t1) = 0 then t1\<lparr>pc := Raised ZeroDivisionError\<rparr>
           else t1\<lparr>pc := AtCheckpoint1 (start_time_in_secs t1) (end_time_in_secs t1)\<rparr>)
      | AtCheckpoint1 s e \<Rightarrow>
          (if task_abort t then t\<lparr>pc := Returned\<rparr>
           else t\<lparr>pc := InAlgorithm s e,
                  algorithm_calls :=
                    algorithm_calls t @ [(signal (task_record t), fs (task_record t), s, e)]\<rparr>)
      | InAlgorithm s e \<Rightarrow>
          (case alg (signal (task_record t)) (fs (task_record t)) s e of
             Inl err \<Rightarrow> t\<lparr>pc := Raised err\<rparr>
           | Inr r \<Rightarrow> t\<lparr>pc := AtCheckpoint2 r\<rparr>)
      | AtCheckpoint2 r \<Rightarrow>
          (if task_abort t then t\<lparr>pc := Returned\<rparr>
           else (case r of (et, aic, n0_aic) \<Rightarrow>
                   t\<lparr>pc := EmittedPosition,
                     emitted := emitted t @ [position_estimated et aic n0_aic]\<rparr>))
      | EmittedPosition \<Rightarrow> t\<lparr>pc := Returned, emitted := emitted t @ [finished]\<rparr>
      | Returned \<Rightarrow> t
      | Raised err \<Rightarrow> t)"

text \<open>
  An execution is a schedule: at each moment either the worker thread makes the next step
  of \<^verbatim>\<open>run()\<close>, or some other thread calls \<^verbatim>\<open>abort()\<close>.
\<close>

datatype action = Step | Abort

fun exec :: "algorithm \<Rightarrow> action list \<Rightarrow> task \<Rightarrow> task" where
  "exec alg [] t = t"
| "exec alg (Step # as) t = exec alg as (run_step alg t)"
| "exec alg (Abort # as) t = exec alg as (abort t)"

text \<open>
  The schedule of one complete run with \<open>n0\<close> calls of \<^verbatim>\<open>abort()\<close> before \<^verbatim>\<open>run()\<close>
  begins, \<open>n1\<close> between the reset of the flag and the first checkpoint, \<open>n2\<close> while the
  algorithm executes, \<open>n3\<close> between its return and the second checkpoint, \<open>n4\<close> between the
  two emissions and \<open>n5\<close> after the last one.
\<close>

definition run_schedule :: "nat \<Rightarrow> nat \<Rightarrow> nat \<Rightarrow> nat \<Rightarrow> nat \<Rightarrow> nat \<Rightarrow> action list" where
  "run_schedule n0 n1 n2 n3 n4 n5 =
     replicate n0 Abort @ [Step] @ replicate n1 Abort @ [Step] @ replicate n2 Abort @ [Step] @
     replicate n3 Abort @ [Step] @ replicate n4 Abort @ [Step] @ replicate n5 Abort"

text \<open>
  The states a complete run passes through: at the first checkpoint, inside the algorithm
  (no \<^verbatim>\<open>abort()\<close> between the reset and the first checkpoint), and at the second
  checkpoint.
\<close>

definition at_checkpoint1 :: "algorithm \<Rightarrow> nat \<Rightarrow> nat \<Rightarrow> task \<Rightarrow> task" where
  "at_checkpoint1 alg n0 n1 t =
     exec alg (replicate n1 Abort) (run_step alg (exec alg (replicate n0 Abort) t))"

definition in_algorithm :: "algorithm \<Rightarrow> nat \<Rightarrow> nat \<Rightarrow> task \<Rightarrow> task" where
  "in_algorithm alg n0 n2 t =
     exec alg (replicate n2 Abort) (run_step alg (at_checkpoint1 alg n0 0 t))"

definition at_checkpoint2 :: "algorithm \<Rightarrow> nat \<Rightarrow> nat \<Rightarrow> nat \<Rightarrow> task \<Rightarrow> task" where
  "at_checkpoint2 alg n0 n2 n3 t =
     exec alg (replicate n3 Abort) (run_step alg (in_algorithm alg n0 n2 t))"

section \<open>TakanamiDialog\<close>

text \<open>
  The module \<^verbatim>\<open>eqpickertool.picking.record\<close> is not part of the file; the three of its
  constants that \<^verbatim>\<open>save_event\<close> passes on are kept as names.
\<close>

datatype rc_const = method_takanami | mode_automatic | status_reported

text \<open>A seismic event: the file reads its attribute \<^verbatim>\<open>time\<close> only.\<close>

record seismic_event =
  time :: int

text \<open>
  The document is external. The model keeps its record and the calls the dialog makes to
  it, oldest first, each with its keyword arguments \<^verbatim>\<open>time\<close>, \<^verbatim>\<open>method\<close>,
  \<^verbatim>\<open>mode\<close> and \<^verbatim>\<open>status\<close>.
\<close>

datatype doc_call =
    editEvent seismic_event int rc_const rc_const rc_const
  | createEvent int rc_const rc_const rc_const

record document =
  doc_record :: seismic_record
  doc_calls :: "doc_call list"

text \<open>
  A \<^verbatim>\<open>QTimeEdit\<close> holds a time and the range the user may choose from. A time is
  represented by the number of milliseconds that the source hands to
  \<^verbatim>\<open>QTime().addMSecs\<close>; the setters store their argument. What the toolkit does
  beyond that (wrapping at 24 hours, moving the shown time into a new range and reporting
  it) is not in the file and not in the model.
\<close>

record time_edit =
  edit_time :: rat
  minimum_time :: rat
  maximum_time :: rat

definition QTimeEdit :: time_edit where
  "QTimeEdit = \<lparr>edit_time = 0, minimum_time = 0, maximum_time = 86399999\<rparr>"

definition setTime :: "rat \<Rightarrow> time_edit \<Rightarrow> time_edit" where
  "setTime ms w = w\<lparr>edit_time := ms\<rparr>"

definition setMinimumTime :: "rat \<Rightarrow> time_edit \<Rightarrow> time_edit" where
  "setMinimumTime ms w = w\<lparr>minimum_time := ms\<rparr>"

definition setMaximumTime :: "rat \<Rightarrow> time_edit \<Rightarrow> time_edit" where
  "setMaximumTime ms w = w\<lparr>maximum_time := ms\<rparr>"

text \<open>
  The attributes of the dialog: \<^verbatim>\<open>document\<close>, \<^verbatim>\<open>record\<close>, \<^verbatim>\<open>_start\<close>,
  \<^verbatim>\<open>_end\<close>, \<^verbatim>\<open>seismic_event\<close>, \<^verbatim>\<open>event_time\<close>, the two spin boxes, the time
  shown by \<^verbatim>\<open>position_label\<close> (in milliseconds), the event last handed to the
  plot, and \<^verbatim>\<open>_task\<close> (absent until the first task is made).
\<close>

record dialog =
  dlg_document :: document
  dlg_record :: seismic_record
  dlg_start :: rat
  dlg_end :: rat
  dlg_seismic_event :: "seismic_event option"
  event_time :: int
  start_point_spinbox :: time_edit
  end_point_spinbox :: time_edit
  position_label :: rat
  plotted :: "estimate option"
  dlg_task :: "task option"

text \<open>\<^verbatim>\<open>_init_ui\<close>, lines 180-188: the initial values and limits of the spin boxes.\<close>

definition init_ui :: "rounding \<Rightarrow> dialog \<Rightarrow> error + dialog" where
  "init_ui rnd d =
     (if fs (dlg_record d) = 0 then Inl ZeroDivisionError
      else
        let time_in_msecs =
              of_int (py_int (fl_div rnd (fl_mul rnd (signal_len (dlg_record d)) 1000)
                                (fs (dlg_record d))));
            sp1 = setTime 0 QTimeEdit;
            ep1 = setTime time_in_msecs QTimeEdit;
            sp2 = setMinimumTime 0 sp1;
            ep2 = setMinimumTime (MINIMUM_MARGIN_IN_SECS * 1000) ep1;
            sp3 = setMaximumTime (time_in_msecs - MINIMUM_MARGIN_IN_SECS * 1000) sp2;
            ep3 = setMaximumTime time_in_msecs ep2
        in Inr (d\<lparr>position_label := 0, start_point_spinbox := sp3, end_point_spinbox := ep3\<rparr>))"

definition set_margin :: "dialog \<Rightarrow> rat \<Rightarrow> error + dialog" where
  "set_margin d margin =
     (if margin \<le> 0 then Inl (ValueError ''margin must be a positive value'')
      else
        let margin1 = max (MINIMUM_MARGIN_IN_SECS * fs (dlg_record d)) margin;
            s = max 0 (of_int (event_time d) - margin1);
            e = min (signal_len (dlg_record d)) (of_int (event_time d) + margin1)
        in if fs (dlg_record d) = 0 then Inl ZeroDivisionError
           else Inr (d\<lparr>dlg_start := s, dlg_end := e,
                       start_point_spinbox :=
                         setTime ((s * 1000) / fs (dlg_record d)) (start_point_spinbox d),
                       end_point_spinbox :=
                         setTime ((e * 1000) / fs (dlg_record d)) (end_point_spinbox d)\<rparr>))"

text \<open>
  \<^verbatim>\<open>load_settings\<close>: the persistent settings are external, so the stored value of
  \<^verbatim>\<open>takanami_margin\<close> (5.0 when nothing is stored) is an argument.
\<close>

definition load_settings :: "rounding \<Rightarrow> rat \<Rightarrow> dialog \<Rightarrow> error + dialog" where
  "load_settings rnd takanami_margin d =
     set_margin d (of_int (py_int (fl_mul rnd takanami_margin (fs (dlg_record d)))))"

text \<open>
  The constructor, lines 99-132: an exception leaves no dialog behind (\<open>Inl\<close>). The
  midpoint of line 117 is \<^verbatim>\<open>int((end - start) / 2)\<close>; whether \<^verbatim>\<open>/\<close> floors or
  divides exactly, the result is the same for the non-negative differences that pass
  line 120. The last
  statement, \<^verbatim>\<open>self.wait_dialog.run(self._task)\<close>, hands the new task to the external
  processing dialog; the run of the task and the delivery of its result are the separate
  operations \<open>exec\<close> and \<open>on_position_estimated\<close>.
\<close>

definition TakanamiDialog_init ::
  "rounding \<Rightarrow> document \<Rightarrow> rat \<Rightarrow> rat \<Rightarrow> seismic_event option \<Rightarrow> rat \<Rightarrow> error + dialog" where
  "TakanamiDialog_init rnd doc t_start t_end ev takanami_margin =
     (let r = doc_record doc;
          s = py_int (fl_mul rnd t_start (fs r));
          e = py_int (fl_mul rnd t_end (fs r))
      in if \<not> (0 \<le> s \<and> of_int s < signal_len r) then
           Inl (ValueError ''Invalid t_start value'')
         else if \<not> (0 \<le> e \<and> of_int e < signal_len r) then
           Inl (ValueError ''Invalid t_end value'')
         else if rat_of_int (e - s) < MINIMUM_MARGIN_IN_SECS * fs r then
           Inl (ValueError ''Distance between t_start and t_end must be at least of 0.5 seconds'')
         else
           let et = (case ev of None \<Rightarrow> s + py_int (rat_of_int (e - s) / 2) | Some v \<Rightarrow> time v)
           in if \<not> (s < et \<and> et < e) then
                Inl (ValueError ''Event time must be a value between t-start and t_end'')
              else
                (case init_ui rnd \<lparr>dlg_document = doc, dlg_record = r, dlg_start = of_int s,
                               dlg_end = of_int e, dlg_seismic_event = ev, event_time = et,
                               start_point_spinbox = QTimeEdit, end_point_spinbox = QTimeEdit,
                               position_label = 0, plotted = None, dlg_task = None\<rparr> of
                   Inl err \<Rightarrow> Inl err
                 | Inr d1 \<Rightarrow>
                     (case load_settings rnd takanami_margin d1 of
                        Inl err \<Rightarrow> Inl err
                      | Inr d2 \<Rightarrow>
                          Inr (d2\<lparr>dlg_task :=
                                 Some (TakanamiTask_init (dlg_record d2) (dlg_start d2) (dlg_end d2))\<rparr>))))"

text \<open>
  The two handlers of \<^verbatim>\<open>timeChanged\<close>. Their argument is the number of milliseconds
  \<^verbatim>\<open>QTime().msecsTo(value)\<close> of the edited time.
\<close>

definition on_start_point_changed :: "rounding \<Rightarrow> dialog \<Rightarrow> int \<Rightarrow> dialog" where
  "on_start_point_changed rnd d time_in_msecs =
     (let t_start = py_int (max 0 (fl_mul rnd (fl_div rnd (of_int time_in_msecs) 1000)
                                     (fs (dlg_record d))))
      in if dlg_start d \<noteq> of_int t_start then
           d\<lparr>dlg_start := of_int t_start,
             end_point_spinbox :=
               setMinimumTime (of_int time_in_msecs + MINIMUM_MARGIN_IN_SECS * 1000)
                 (end_point_spinbox d)\<rparr>
         else d)"

definition on_end_point_changed :: "rounding \<Rightarrow> dialog \<Rightarrow> int \<Rightarrow> dialog" where
  "on_end_point_changed rnd d time_in_msecs =
     (let t_end = py_int (min (signal_len (dlg_record d))
                            (fl_mul rnd (fl_div rnd (of_int time_in_msecs) 1000)
                               (fs (dlg_record d))))
      in if dlg_end d \<noteq> of_int t_end then
           d\<lparr>dlg_end := of_int t_end,
             start_point_spinbox :=
               setMaximumTime (of_int time_in_msecs - MINIMUM_MARGIN_IN_SECS * 1000)
                 (start_point_spinbox d)\<rparr>
         else d)"

text \<open>
  \<^verbatim>\<open>on_position_estimated\<close>: the assignment to \<^verbatim>\<open>event_time\<close>, the label and the
  plot of the received event.
\<close>

definition on_position_estimated :: "dialog \<Rightarrow> int \<Rightarrow> rat list \<Rightarrow> int \<Rightarrow> error + dialog" where
  "on_position_estimated d t aic n0_aic =
     (let d1 = d\<lparr>event_time := t\<rparr>
      in if fs (dlg_record d1) = 0 then Inl ZeroDivisionError
         else Inr (d1\<lparr>position_label := (of_int (event_time d1) * 1000) / fs (dlg_record d1),
                      plotted := Some (t, aic, n0_aic)\<rparr>))"

definition save_event :: "dialog \<Rightarrow> dialog" where
  "save_event d =
     (case dlg_seismic_event d of
        Some ev \<Rightarrow>
          (if time ev \<noteq> event_time d then
             d\<lparr>dlg_document := (dlg_document d)\<lparr>doc_calls := doc_calls (dlg_document d) @
                  [editEvent ev (event_time d) method_takanami mode_automatic status_reported]\<rparr>\<rparr>
           else d)
      | None \<Rightarrow>
          d\<lparr>dlg_document := (dlg_document d)\<lparr>doc_calls := doc_calls (dlg_document d) @
               [createEvent (event_time d) method_takanami mode_automatic status_reported]\<rparr>\<rparr>)"

datatype button = Ok | Apply | Cancel

definition on_click :: "dialog \<Rightarrow> button \<Rightarrow> dialog" where
  "on_click d b =
     (let d1 = (if b = Ok then save_event d else d)
      in if b = Apply then
           d1\<lparr>dlg_task := Some (TakanamiTask_init (dlg_record d1) (dlg_start d1) (dlg_end d1))\<rparr>
         else d1)"

section \<open>Concrete inputs\<close>

text \<open>
  A record of 10000 samples at 100 Hz, a document holding it, an algorithm that always
  returns the same estimate and one that always raises.
\<close>

definition scenario_record :: seismic_record where
  "scenario_record = \<lparr>fs = 100, signal = replicate 10000 0\<rparr>"

definition scenario_document :: document where
  "scenario_document = \<lparr>doc_record = scenario_record, doc_calls = []\<rparr>"

definition fixed_algorithm :: "estimate \<Rightarrow> algorithm" where
  "fixed_algorithm est sig f s e = Inr est"

definition failing_algorithm :: "error \<Rightarrow> algorithm" where
  "failing_algorithm err sig f s e = Inl err"

definition past_checkpoint1 :: "task \<Rightarrow> bool" where
  "past_checkpoint1 t =
     (case pc t of NotStarted \<Rightarrow> False | AtCheckpoint1 s e \<Rightarrow> False | _ \<Rightarrow> True)"
text \<open>
  What every execution keeps true of a task made from \<open>r\<close>, \<open>s\<close> and \<open>e\<close>: its fields
  are unchanged, the times held at the first checkpoint are the clamped bounds in seconds,
  and every call of the algorithm so far had exactly these arguments.
\<close>

definition calls_ok :: "seismic_record \<Rightarrow> rat \<Rightarrow> rat \<Rightarrow> task \<Rightarrow> bool" where
  "calls_ok r s e t \<longleftrightarrow>
     task_record t = r \<and> task_start t = s \<and> task_end t = e \<and>
     (case pc t of
        AtCheckpoint1 s1 e1 \<Rightarrow> s1 = max 0 s / fs r \<and> e1 = min (signal_len r) e / fs r
      | _ \<Rightarrow> True) \<and>
     list_all (\<lambda>c. c = (signal r, fs r, max 0 s / fs r, min (signal_len r) e / fs r))
       (algorithm_calls t)"

text \<open>
  The rounding that leaves every number as it is. It is what the floating point unit does
  wherever the exact result is itself a double, and the concrete inputs of this theory are
  chosen so: on them every product and quotient that the dialog truncates is an integer or
  a multiple of \<open>1 / 8\<close> of a few digits.
\<close>

definition exact :: rounding where
  "exact x = x"

text \<open>
  The dialog that the constructor returns for the record above, the window from 4 to 6
  seconds, no previous event and the default margin of 5 seconds; and the one it returns
  for the window from 94 to 96 seconds, close to the end of the signal.
\<close>

definition scenario_dialog :: dialog where
  "scenario_dialog =
     \<lparr>dlg_document = scenario_document, dlg_record = scenario_record,
      dlg_start = 0, dlg_end = 1000, dlg_seismic_event = None, event_time = 500,
      start_point_spinbox = \<lparr>edit_time = 0, minimum_time = 0, maximum_time = 99500\<rparr>,
      end_point_spinbox = \<lparr>edit_time = 10000, minimum_time = 500, maximum_time = 100000\<rparr>,
      position_label = 0, plotted = None,
      dlg_task = Some (TakanamiTask_init scenario_record 0 1000)\<rparr>"

definition late_dialog :: dialog where
  "late_dialog =
     \<lparr>dlg_document = scenario_document, dlg_record = scenario_record,
      dlg_start = 9000, dlg_end = 10000, dlg_seismic_event = None, event_time = 9500,
      start_point_spinbox = \<lparr>edit_time = 90000, minimum_time = 0, maximum_time = 99500\<rparr>,
      end_point_spinbox = \<lparr>edit_time = 100000, minimum_time = 500, maximum_time = 100000\<rparr>,
      position_label = 0, plotted = None,
      dlg_task = Some (TakanamiTask_init scenario_record 9000 10000)\<rparr>"

section \<open>The invariants of the specification\<close>

text \<open>
  The invariant of the window as the specification words it: both bounds are integers,
  \<open>0 \<le> start < N\<close>, \<open>0 \<le> end < N\<close>, \<open>start < end\<close> and \<open>(end - start) / fs\<close> is at least
  half a second.
\<close>

definition is_index :: "rat \<Rightarrow> bool" where
  "is_index x \<longleftrightarrow> of_int \<lfloor>x\<rfloor> = x"

definition SignalWindow_invariant :: "dialog \<Rightarrow> bool" where
  "SignalWindow_invariant d \<longleftrightarrow>
     is_index (dlg_start d) \<and> is_index (dlg_end d) \<and>
     0 \<le> dlg_start d \<and> dlg_start d < signal_len (dlg_record d) \<and>
     0 \<le> dlg_end d \<and> dlg_end d < signal_len (dlg_record d) \<and>
     dlg_start d < dlg_end d \<and>
     MINIMUM_MARGIN_IN_SECS \<le> (dlg_end d - dlg_start d) / fs (dlg_record d)"

text \<open>The invariant of the event time as the specification words it.\<close>

definition EventTime_invariant :: "dialog \<Rightarrow> bool" where
  "EventTime_invariant d \<longleftrightarrow>
     dlg_start d < of_int (event_time d) \<and> of_int (event_time d) < dlg_end d"

text \<open>
  What the code keeps of the window: the end may be \<open>N\<close> itself, the bounds need not be
  integers, and the width is compared with \<^verbatim>\<open>MINIMUM_MARGIN_IN_SECS * fs\<close> in samples,
  as line 111 does.
\<close>

definition window_in_signal :: "dialog \<Rightarrow> bool" where
  "window_in_signal d \<longleftrightarrow>
     0 \<le> dlg_start d \<and> dlg_start d < signal_len (dlg_record d) \<and>
     dlg_start d < dlg_end d \<and> dlg_end d \<le> signal_len (dlg_record d) \<and>
     MINIMUM_MARGIN_IN_SECS * fs (dlg_record d) \<le> dlg_end d - dlg_start d"

text \<open>
  A record of 1000 samples at 5 Hz, where half a second is 2.5 samples and a sample lasts
  200 ms, and the dialog that the constructor returns for its window from 2 to 6 seconds
  with the default margin.
\<close>

definition coarse_document :: document where
  "coarse_document = \<lparr>doc_record = \<lparr>fs = 5, signal = replicate 1000 0\<rparr>, doc_calls = []\<rparr>"

definition coarse_dialog :: dialog where
  "coarse_dialog =
     \<lparr>dlg_document = coarse_document, dlg_record = doc_record coarse_document,
      dlg_start = 0, dlg_end = 45, dlg_seismic_event = None, event_time = 20,
      start_point_spinbox = \<lparr>edit_time = 0, minimum_time = 0, maximum_time = 199500\<rparr>,
      end_point_spinbox = \<lparr>edit_time = 9000, minimum_time = 500, maximum_time = 200000\<rparr>,
      position_label = 0, plotted = None,
      dlg_task = Some (TakanamiTask_init (doc_record coarse_document) 0 45)\<rparr>"

section \<open>Properties of TakanamiTask\<close>

text \<open>
  Executions are taken apart at the steps of \<^verbatim>\<open>run()\<close>: a block of \<^verbatim>\<open>abort()\<close>
  calls only sets the flag, each step is determined by the position reached, and a run
  that has returned or raised does nothing more.
\<close>


lemma exec_append: "exec alg (xs @ ys) t = exec alg ys (exec alg xs t)"
  by (induction alg xs t rule: exec.induct) simp_all

lemma abort_abort: "abort (abort t) = abort t"
  by (simp add: abort_def)

lemma exec_aborts: "exec alg (replicate n Abort) t = (if n = 0 then t else abort t)"
proof (induction n arbitrary: t)
  case 0
  show ?case by simp
next
  case (Suc n)
  show ?case by (simp add: Suc abort_abort)
qed

lemma exec_aborts_fields:
  "pc (exec alg (replicate n Abort) t) = pc t"
  "emitted (exec alg (replicate n Abort) t) = emitted t"
  "algorithm_calls (exec alg (replicate n Abort) t) = algorithm_calls t"
  "task_record (exec alg (replicate n Abort) t) = task_record t"
  "task_start (exec alg (replicate n Abort) t) = task_start t"
  "task_end (exec alg (replicate n Abort) t) = task_end t"
  "task_abort (exec alg (replicate n Abort) t) = (task_abort t \<or> 0 < n)"
  by (simp_all add: exec_aborts abort_def)

lemma exec_Step: "exec alg [Step] t = run_step alg t"
  by simp

declare run_step.simps [simp del]

lemma run_step_NotStarted:
  "pc t = NotStarted \<Longrightarrow> fs (task_record t) \<noteq> 0 \<Longrightarrow>
   run_step alg t = t\<lparr>task_abort := False,
      pc := AtCheckpoint1 (start_time_in_secs t) (end_time_in_secs t)\<rparr>"
  by (simp add: run_step.simps start_time_in_secs_def end_time_in_secs_def)

lemma run_step_AtCheckpoint1:
  "pc t = AtCheckpoint1 s e \<Longrightarrow>
   run_step alg t =
     (if task_abort t then t\<lparr>pc := Returned\<rparr>
      else t\<lparr>pc := InAlgorithm s e,
             algorithm_calls :=
               algorithm_calls t @ [(signal (task_record t), fs (task_record t), s, e)]\<rparr>)"
  by (simp add: run_step.simps)

lemma run_step_InAlgorithm:
  "pc t = InAlgorithm s e \<Longrightarrow>
   run_step alg t =
     (case alg (signal (task_record t)) (fs (task_record t)) s e of
        Inl err \<Rightarrow> t\<lparr>pc := Raised err\<rparr>
      | Inr r \<Rightarrow> t\<lparr>pc := AtCheckpoint2 r\<rparr>)"
  by (simp add: run_step.simps)

lemma run_step_AtCheckpoint2:
  "pc t = AtCheckpoint2 (et, aic, n0_aic) \<Longrightarrow>
   run_step alg t =
     (if task_abort t then t\<lparr>pc := Returned\<rparr>
      else t\<lparr>pc := EmittedPosition,
             emitted := emitted t @ [position_estimated et aic n0_aic]\<rparr>)"
  by (simp add: run_step.simps)

lemma run_step_EmittedPosition:
  "pc t = EmittedPosition \<Longrightarrow>
   run_step alg t = t\<lparr>pc := Returned, emitted := emitted t @ [finished]\<rparr>"
  by (simp add: run_step.simps)

lemma run_step_Returned: "pc t = Returned \<Longrightarrow> run_step alg t = t"
  by (simp add: run_step.simps)

lemma run_step_Raised: "pc t = Raised err \<Longrightarrow> run_step alg t = t"
  by (simp add: run_step.simps)


lemma exec_halted:
  "pc t = Returned \<or> pc t = Raised err \<Longrightarrow>
   pc (exec alg sched t) = pc t \<and> emitted (exec alg sched t) = emitted t \<and>
   algorithm_calls (exec alg sched t) = algorithm_calls t"
proof (induction sched arbitrary: t)
  case Nil
  show ?case by simp
next
  case (Cons a sched)
  show ?case
  proof (cases a)
    case Step
    from Cons.prems have "run_step alg t = t"
      by (auto simp: run_step_Returned run_step_Raised)
    with Cons Step show ?thesis by simp
  next
    case Abort
    from Cons.prems have "pc (abort t) = Returned \<or> pc (abort t) = Raised err"
      by (simp add: abort_def)
    from Cons.IH [OF this] Abort show ?thesis by (simp add: abort_def)
  qed
qed

lemma at_checkpoint1_fields:
  fixes alg n0 n1 r s e
  assumes "fs r \<noteq> 0"
  defines "t \<equiv> at_checkpoint1 alg n0 n1 (TakanamiTask_init r s e)"
  shows "pc t = AtCheckpoint1 (max 0 s / fs r) (min (signal_len r) e / fs r)"
    and "task_abort t = (0 < n1)"
    and "emitted t = []"
    and "algorithm_calls t = []"
    and "task_record t = r"
proof -
  define t0 where "t0 = exec alg (replicate n0 Abort) (TakanamiTask_init r s e)"
  have t0: "pc t0 = NotStarted" "task_record t0 = r" "task_start t0 = s" "task_end t0 = e"
    "emitted t0 = []" "algorithm_calls t0 = []"
    by (simp_all add: t0_def exec_aborts_fields TakanamiTask_init_def)
  have step: "run_step alg t0 = t0\<lparr>task_abort := False,
      pc := AtCheckpoint1 (start_time_in_secs t0) (end_time_in_secs t0)\<rparr>"
    using t0 assms(1) by (simp add: run_step_NotStarted)
  have t: "t = exec alg (replicate n1 Abort) (run_step alg t0)"
    by (simp add: t_def at_checkpoint1_def t0_def)
  show "pc t = AtCheckpoint1 (max 0 s / fs r) (min (signal_len r) e / fs r)"
    by (simp add: t exec_aborts_fields step start_time_in_secs_def end_time_in_secs_def t0)
  show "task_abort t = (0 < n1)"
    by (simp add: t exec_aborts_fields step)
  show "emitted t = []"
    by (simp add: t exec_aborts_fields step t0)
  show "algorithm_calls t = []"
    by (simp add: t exec_aborts_fields step t0)
  show "task_record t = r"
    by (simp add: t exec_aborts_fields step t0)
qed


lemma in_algorithm_fields:
  fixes alg n0 n2 r s e
  assumes "fs r \<noteq> 0"
  defines "t \<equiv> in_algorithm alg n0 n2 (TakanamiTask_init r s e)"
  shows "pc t = InAlgorithm (max 0 s / fs r) (min (signal_len r) e / fs r)"
    and "task_abort t = (0 < n2)"
    and "emitted t = []"
    and "algorithm_calls t =
           [(signal r, fs r, max 0 s / fs r, min (signal_len r) e / fs r)]"
    and "task_record t = r"
proof -
  define u where "u = at_checkpoint1 alg n0 0 (TakanamiTask_init r s e)"
  note u = at_checkpoint1_fields [OF assms(1), of alg n0 0 s e, folded u_def]
  have step: "run_step alg u = u\<lparr>pc := InAlgorithm (max 0 s / fs r) (min (signal_len r) e / fs r),
      algorithm_calls := [(signal r, fs r, max 0 s / fs r, min (signal_len r) e / fs r)]\<rparr>"
    using u by (simp add: run_step_AtCheckpoint1)
  have t: "t = exec alg (replicate n2 Abort) (run_step alg u)"
    by (simp add: t_def in_algorithm_def u_def)
  show "pc t = InAlgorithm (max 0 s / fs r) (min (signal_len r) e / fs r)"
    by (simp add: t exec_aborts_fields step)
  show "task_abort t = (0 < n2)"
    using u by (simp add: t exec_aborts_fields step)
  show "emitted t = []"
    using u by (simp add: t exec_aborts_fields step)
  show "algorithm_calls t = [(signal r, fs r, max 0 s / fs r, min (signal_len r) e / fs r)]"
    by (simp add: t exec_aborts_fields step)
  show "task_record t = r"
    using u by (simp add: t exec_aborts_fields step)
qed

lemma at_checkpoint2_fields:
  fixes alg n0 n2 n3 r s e est
  assumes "fs r \<noteq> 0"
    and "alg (signal r) (fs r) (max 0 s / fs r) (min (signal_len r) e / fs r) = Inr est"
  defines "t \<equiv> at_checkpoint2 alg n0 n2 n3 (TakanamiTask_init r s e)"
  shows "pc t = AtCheckpoint2 est"
    and "task_abort t = (0 < n2 \<or> 0 < n3)"
    and "emitted t = []"
proof -
  define u where "u = in_algorithm alg n0 n2 (TakanamiTask_init r s e)"
  note u = in_algorithm_fields [OF assms(1), of alg n0 n2 s e, folded u_def]
  have step: "run_step alg u = u\<lparr>pc := AtCheckpoint2 est\<rparr>"
    using u assms(2) by (simp add: run_step_InAlgorithm)
  have t: "t = exec alg (replicate n3 Abort) (run_step alg u)"
    by (simp add: t_def at_checkpoint2_def u_def)
  show "pc t = AtCheckpoint2 est"
    by (simp add: t exec_aborts_fields step)
  show "task_abort t = (0 < n2 \<or> 0 < n3)"
    using u by (simp add: t exec_aborts_fields step)
  show "emitted t = []"
    using u by (simp add: t exec_aborts_fields step)
qed

lemma algorithm_raises:
  fixes alg n0 n2 r s e err
  assumes "fs r \<noteq> 0"
    and "alg (signal r) (fs r) (max 0 s / fs r) (min (signal_len r) e / fs r) = Inl err"
  defines "t \<equiv> run_step alg (in_algorithm alg n0 n2 (TakanamiTask_init r s e))"
  shows "pc t = Raised err" and "emitted t = []"
proof -
  define u where "u = in_algorithm alg n0 n2 (TakanamiTask_init r s e)"
  note u = in_algorithm_fields [OF assms(1), of alg n0 n2 s e, folded u_def]
  have step: "run_step alg u = u\<lparr>pc := Raised err\<rparr>"
    using u assms(2) by (simp add: run_step_InAlgorithm)
  show "pc t = Raised err"
    by (simp add: t_def step flip: u_def)
  show "emitted t = []"
    using u by (simp add: t_def step flip: u_def)
qed

lemma run_schedule_split:
  "exec alg (run_schedule n0 n1 n2 n3 n4 n5) t =
     exec alg ([Step] @ replicate n2 Abort @ [Step] @ replicate n3 Abort @ [Step] @
               replicate n4 Abort @ [Step] @ replicate n5 Abort)
       (at_checkpoint1 alg n0 n1 t)"
  by (simp add: run_schedule_def exec_append at_checkpoint1_def)

lemma run_schedule_split2:
  "exec alg (run_schedule n0 0 n2 n3 n4 n5) t =
     exec alg ([Step] @ replicate n4 Abort @ [Step] @ replicate n5 Abort)
       (at_checkpoint2 alg n0 n2 n3 t)"
  by (simp add: run_schedule_def exec_append at_checkpoint1_def in_algorithm_def
      at_checkpoint2_def)
lemma run_step_past_checkpoint1:
  "past_checkpoint1 t \<Longrightarrow>
   past_checkpoint1 (run_step alg t) \<and> algorithm_calls (run_step alg t) = algorithm_calls t"
  by (cases "pc t")
    (auto simp: past_checkpoint1_def run_step.simps split: sum.splits prod.splits)

lemma exec_past_checkpoint1:
  "past_checkpoint1 t \<Longrightarrow> algorithm_calls (exec alg sched t) = algorithm_calls t"
proof (induction sched arbitrary: t)
  case Nil
  show ?case by simp
next
  case (Cons a sched)
  show ?case
  proof (cases a)
    case Step
    from run_step_past_checkpoint1 [OF Cons.prems, of alg] Cons.IH [of "run_step alg t"] Step
    show ?thesis by simp
  next
    case Abort
    from Cons.prems have "past_checkpoint1 (abort t)"
      by (simp add: past_checkpoint1_def abort_def)
    from Cons.IH [OF this] Abort show ?thesis by (simp add: abort_def)
  qed
qed

lemma calls_ok_init: "calls_ok r s e (TakanamiTask_init r s e)"
  by (simp add: calls_ok_def TakanamiTask_init_def)

lemma calls_ok_abort: "calls_ok r s e t \<Longrightarrow> calls_ok r s e (abort t)"
  by (simp add: calls_ok_def abort_def)

lemma calls_ok_run_step: "calls_ok r s e t \<Longrightarrow> calls_ok r s e (run_step alg t)"
  by (cases "pc t")
    (auto simp: calls_ok_def run_step.simps Let_def start_time_in_secs_def end_time_in_secs_def
      split: sum.splits prod.splits)

lemma calls_ok_exec: "calls_ok r s e t \<Longrightarrow> calls_ok r s e (exec alg sched t)"
proof (induction sched arbitrary: t)
  case Nil
  then show ?case by simp
next
  case (Cons a sched)
  then show ?case
    by (cases a) (simp_all add: calls_ok_run_step calls_ok_abort)
qed

lemma run_schedule_split3:
  "exec alg (run_schedule n0 0 n2 n3 n4 n5) t =
     exec alg (replicate n3 Abort @ [Step] @ replicate n4 Abort @ [Step] @ replicate n5 Abort)
       (run_step alg (in_algorithm alg n0 n2 t))"
  by (simp add: run_schedule_def exec_append at_checkpoint1_def in_algorithm_def)


section \<open>Properties of TakanamiDialog\<close>

text \<open>
  The two dialogs of the scenario are what the constructor returns, \<^verbatim>\<open>set_margin\<close> in
  closed form, and the constructor read in both directions: what a returned dialog says
  about the inputs, and which inputs are accepted or rejected.
\<close>

lemmas scenario_defs = scenario_document_def scenario_record_def signal_len_def py_int_def
  MINIMUM_MARGIN_IN_SECS_def QTimeEdit_def setTime_def setMinimumTime_def setMaximumTime_def
  fl_mul_def fl_div_def exact_def

lemma scenario_dialog_init:
  "TakanamiDialog_init exact scenario_document 4 6 None 5 = Inr scenario_dialog"
  by (simp add: TakanamiDialog_init_def init_ui_def load_settings_def set_margin_def
      scenario_defs Let_def scenario_dialog_def)

lemma late_dialog_init:
  "TakanamiDialog_init exact scenario_document 94 96 None 5 = Inr late_dialog"
  by (simp add: TakanamiDialog_init_def init_ui_def load_settings_def set_margin_def
      scenario_defs Let_def late_dialog_def)

lemma set_margin_nonpositive:
  "m \<le> 0 \<Longrightarrow> set_margin d m = Inl (ValueError ''margin must be a positive value'')"
  by (simp add: set_margin_def)

lemma set_margin_positive:
  "0 < m \<Longrightarrow> fs (dlg_record d) \<noteq> 0 \<Longrightarrow>
   set_margin d m =
     Inr (d\<lparr>dlg_start := max 0 (of_int (event_time d) -
                 max (MINIMUM_MARGIN_IN_SECS * fs (dlg_record d)) m),
            dlg_end := min (signal_len (dlg_record d)) (of_int (event_time d) +
                 max (MINIMUM_MARGIN_IN_SECS * fs (dlg_record d)) m),
            start_point_spinbox :=
              setTime ((max 0 (of_int (event_time d) -
                 max (MINIMUM_MARGIN_IN_SECS * fs (dlg_record d)) m) * 1000) / fs (dlg_record d))
                (start_point_spinbox d),
            end_point_spinbox :=
              setTime ((min (signal_len (dlg_record d)) (of_int (event_time d) +
                 max (MINIMUM_MARGIN_IN_SECS * fs (dlg_record d)) m) * 1000) / fs (dlg_record d))
                (end_point_spinbox d)\<rparr>)"
  by (simp add: set_margin_def Let_def)

lemma py_int_zero: "py_int 0 = 0"
  by (simp add: py_int_def)

lemma TakanamiDialog_init_Inr:
  fixes rnd doc t_start t_end ev takanami_margin d
  defines "r \<equiv> doc_record doc"
  defines "s \<equiv> py_int (fl_mul rnd t_start (fs r))" and "e \<equiv> py_int (fl_mul rnd t_end (fs r))"
  defines "et \<equiv> (case ev of None \<Rightarrow> s + py_int (rat_of_int (e - s) / 2) | Some v \<Rightarrow> time v)"
  defines "m \<equiv> rat_of_int (py_int (fl_mul rnd takanami_margin (fs r)))"
  assumes init: "TakanamiDialog_init rnd doc t_start t_end ev takanami_margin = Inr d"
  shows "0 \<le> s" and "rat_of_int s < signal_len r" and "0 \<le> e" and "rat_of_int e < signal_len r"
    and "MINIMUM_MARGIN_IN_SECS * fs r \<le> rat_of_int (e - s)"
    and "s < et" and "et < e" and "0 < m" and "fs r \<noteq> 0"
    and "dlg_record d = r" and "dlg_document d = doc" and "dlg_seismic_event d = ev"
    and "event_time d = et"
    and "dlg_start d = max 0 (rat_of_int et - max (MINIMUM_MARGIN_IN_SECS * fs r) m)"
    and "dlg_end d = min (signal_len r) (rat_of_int et + max (MINIMUM_MARGIN_IN_SECS * fs r) m)"
    and "dlg_task d = Some (TakanamiTask_init r (dlg_start d) (dlg_end d))"
proof -
  from init have c1: "0 \<le> s \<and> rat_of_int s < signal_len r"
    unfolding TakanamiDialog_init_def Let_def r_def s_def
    by (simp split: if_splits)
  from init c1 have c2: "0 \<le> e \<and> rat_of_int e < signal_len r"
    unfolding TakanamiDialog_init_def Let_def r_def s_def e_def
    by (simp split: if_splits)
  from init c1 c2 have c3: "MINIMUM_MARGIN_IN_SECS * fs r \<le> rat_of_int (e - s)"
    unfolding TakanamiDialog_init_def Let_def r_def s_def e_def
    by (simp split: if_splits)
  from init c1 c2 c3 have c4: "s < et \<and> et < e"
    unfolding TakanamiDialog_init_def Let_def r_def s_def e_def et_def
    by (simp split: if_splits)
  have nz: "fs r \<noteq> 0"
  proof
    assume "fs r = 0"
    then have "s = 0" "e = 0" by (simp_all add: s_def e_def fl_mul_def py_int_zero)
    with c4 show False by linarith
  qed
  define d0 where "d0 = \<lparr>dlg_document = doc, dlg_record = r, dlg_start = of_int s,
      dlg_end = of_int e, dlg_seismic_event = ev, event_time = et,
      start_point_spinbox = QTimeEdit, end_point_spinbox = QTimeEdit,
      position_label = 0, plotted = None, dlg_task = None\<rparr>"
  have rest: "(case init_ui rnd d0 of Inl err \<Rightarrow> Inl err
       | Inr d1 \<Rightarrow> (case load_settings rnd takanami_margin d1 of Inl err \<Rightarrow> Inl err
           | Inr d2 \<Rightarrow> Inr (d2\<lparr>dlg_task :=
               Some (TakanamiTask_init (dlg_record d2) (dlg_start d2) (dlg_end d2))\<rparr>))) = Inr d"
    using init c1 c2 c3 c4
    unfolding TakanamiDialog_init_def Let_def r_def s_def e_def et_def d0_def
    by (simp split: if_splits)
  obtain d1 where d1: "init_ui rnd d0 = Inr d1"
    using nz by (simp add: init_ui_def d0_def Let_def)
  have d1f: "dlg_record d1 = r" "event_time d1 = et" "dlg_document d1 = doc"
    "dlg_seismic_event d1 = ev"
    using d1 nz by (auto simp: init_ui_def d0_def Let_def)
  from rest d1 obtain d2 where d2: "set_margin d1 m = Inr d2"
    and d: "d = d2\<lparr>dlg_task := Some (TakanamiTask_init (dlg_record d2) (dlg_start d2) (dlg_end d2))\<rparr>"
    by (auto simp: load_settings_def d1f m_def split: sum.splits)
  from d2 have mpos: "0 < m"
    by (simp add: set_margin_def split: if_splits)
  from d2 mpos nz d1f have d2f: "dlg_record d2 = r" "event_time d2 = et" "dlg_document d2 = doc"
    "dlg_seismic_event d2 = ev"
    "dlg_start d2 = max 0 (rat_of_int et - max (MINIMUM_MARGIN_IN_SECS * fs r) m)"
    "dlg_end d2 = min (signal_len r) (rat_of_int et + max (MINIMUM_MARGIN_IN_SECS * fs r) m)"
    by (auto simp: set_margin_positive)
  show "0 \<le> s" "rat_of_int s < signal_len r" "0 \<le> e" "rat_of_int e < signal_len r"
    "s < et" "et < e"
    using c1 c2 c4 by simp_all
  show "MINIMUM_MARGIN_IN_SECS * fs r \<le> rat_of_int (e - s)" by (rule c3)
  show "0 < m" by (rule mpos)
  show "fs r \<noteq> 0" by (rule nz)
  show "dlg_record d = r" "dlg_document d = doc" "dlg_seismic_event d = ev" "event_time d = et"
    by (simp_all add: d d2f)
  show "dlg_start d = max 0 (rat_of_int et - max (MINIMUM_MARGIN_IN_SECS * fs r) m)"
    by (simp add: d d2f)
  show "dlg_end d = min (signal_len r) (rat_of_int et + max (MINIMUM_MARGIN_IN_SECS * fs r) m)"
    by (simp add: d d2f)
  show "dlg_task d = Some (TakanamiTask_init r (dlg_start d) (dlg_end d))"
    by (simp add: d d2f)
qed

lemma TakanamiDialog_init_fs:
  "TakanamiDialog_init rnd doc t_start t_end ev takanami_margin = Inr d \<Longrightarrow> fs (dlg_record d) \<noteq> 0"
  using TakanamiDialog_init_Inr(9,10) by metis

lemma TakanamiDialog_init_rejects:
  fixes rnd doc t_start t_end ev takanami_margin
  defines "r \<equiv> doc_record doc"
  defines "s \<equiv> py_int (fl_mul rnd t_start (fs r))" and "e \<equiv> py_int (fl_mul rnd t_end (fs r))"
  defines "et \<equiv> (case ev of None \<Rightarrow> s + py_int (rat_of_int (e - s) / 2) | Some v \<Rightarrow> time v)"
  assumes invalid: "\<not> (0 \<le> s \<and> s < e \<and> rat_of_int e < signal_len r \<and>
      MINIMUM_MARGIN_IN_SECS * fs r \<le> rat_of_int (e - s) \<and> s < et \<and> et < e)"
  shows "\<exists>msg. TakanamiDialog_init rnd doc t_start t_end ev takanami_margin = Inl (ValueError msg)"
proof -
  consider (bad_start) "\<not> (0 \<le> s \<and> rat_of_int s < signal_len r)"
    | (bad_end) "0 \<le> s \<and> rat_of_int s < signal_len r" "\<not> (0 \<le> e \<and> rat_of_int e < signal_len r)"
    | (bad_width) "0 \<le> s \<and> rat_of_int s < signal_len r" "0 \<le> e \<and> rat_of_int e < signal_len r"
        "rat_of_int (e - s) < MINIMUM_MARGIN_IN_SECS * fs r"
    | (bad_event) "0 \<le> s \<and> rat_of_int s < signal_len r" "0 \<le> e \<and> rat_of_int e < signal_len r"
        "\<not> rat_of_int (e - s) < MINIMUM_MARGIN_IN_SECS * fs r" "\<not> (s < et \<and> et < e)"
    using invalid by fastforce
  then show ?thesis
  proof cases
    case bad_start
    then show ?thesis
      unfolding TakanamiDialog_init_def Let_def r_def s_def by simp
  next
    case bad_end
    then show ?thesis
      unfolding TakanamiDialog_init_def Let_def r_def s_def e_def by simp
  next
    case bad_width
    then show ?thesis
      unfolding TakanamiDialog_init_def Let_def r_def s_def e_def by simp
  next
    case bad_event
    then show ?thesis
      unfolding TakanamiDialog_init_def Let_def r_def s_def e_def et_def by simp
  qed
qed

lemma TakanamiDialog_init_accepts:
  fixes rnd doc t_start t_end ev takanami_margin
  defines "r \<equiv> doc_record doc"
  defines "s \<equiv> py_int (fl_mul rnd t_start (fs r))" and "e \<equiv> py_int (fl_mul rnd t_end (fs r))"
  defines "et \<equiv> (case ev of None \<Rightarrow> s + py_int (rat_of_int (e - s) / 2) | Some v \<Rightarrow> time v)"
  defines "m \<equiv> rat_of_int (py_int (fl_mul rnd takanami_margin (fs r)))"
  assumes valid: "0 \<le> s" "s < e" "rat_of_int e < signal_len r"
      "MINIMUM_MARGIN_IN_SECS * fs r \<le> rat_of_int (e - s)" "s < et" "et < e"
  shows "0 < m \<Longrightarrow> \<exists>d. TakanamiDialog_init rnd doc t_start t_end ev takanami_margin = Inr d"
    and "m \<le> 0 \<Longrightarrow> TakanamiDialog_init rnd doc t_start t_end ev takanami_margin =
           Inl (ValueError ''margin must be a positive value'')"
proof -
  have nz: "fs r \<noteq> 0"
  proof
    assume "fs r = 0"
    then have "s = 0" "e = 0" by (simp_all add: s_def e_def fl_mul_def py_int_zero)
    with valid(2) show False by linarith
  qed
  have sN: "rat_of_int s < signal_len r"
    using valid(2,3) by (meson less_trans of_int_less_iff)
  have e0: "0 \<le> e"
    using valid(1,2) by linarith
  define d0 where "d0 = \<lparr>dlg_document = doc, dlg_record = r, dlg_start = of_int s,
      dlg_end = of_int e, dlg_seismic_event = ev, event_time = et,
      start_point_spinbox = QTimeEdit, end_point_spinbox = QTimeEdit,
      position_label = 0, plotted = None, dlg_task = None\<rparr>"
  have unfold: "TakanamiDialog_init rnd doc t_start t_end ev takanami_margin =
      (case init_ui rnd d0 of Inl err \<Rightarrow> Inl err
       | Inr d1 \<Rightarrow> (case load_settings rnd takanami_margin d1 of Inl err \<Rightarrow> Inl err
           | Inr d2 \<Rightarrow> Inr (d2\<lparr>dlg_task :=
               Some (TakanamiTask_init (dlg_record d2) (dlg_start d2) (dlg_end d2))\<rparr>)))"
    using valid sN e0
    unfolding TakanamiDialog_init_def Let_def r_def s_def e_def et_def d0_def
    by simp
  obtain d1 where d1: "init_ui rnd d0 = Inr d1"
    using nz by (simp add: init_ui_def d0_def Let_def)
  have d1f: "dlg_record d1 = r"
    using d1 nz by (auto simp: init_ui_def d0_def Let_def)
  have ls: "load_settings rnd takanami_margin d1 = set_margin d1 m"
    by (simp add: load_settings_def d1f m_def)
  show "\<exists>d. TakanamiDialog_init rnd doc t_start t_end ev takanami_margin = Inr d" if "0 < m"
    using that nz by (simp add: unfold d1 ls set_margin_positive d1f)
  show "TakanamiDialog_init rnd doc t_start t_end ev takanami_margin =
           Inl (ValueError ''margin must be a positive value'')" if "m \<le> 0"
    using that by (simp add: unfold d1 ls set_margin_nonpositive)
qed

text \<open>
  The window that a positive margin \<open>m\<close> puts around an event time strictly inside the
  signal, for any minimum width \<open>hf\<close> that fits into the signal; then the invariants after
  \<^verbatim>\<open>set_margin\<close> and after construction, and what the two edit handlers store.
\<close>

lemma margin_window:
  fixes et N m hf :: rat
  assumes "0 < et" and "et < N" and "0 < m" and "hf \<le> N"
  shows "0 \<le> max 0 (et - max hf m)"
    and "max 0 (et - max hf m) < N"
    and "max 0 (et - max hf m) < min N (et + max hf m)"
    and "min N (et + max hf m) \<le> N"
    and "hf \<le> min N (et + max hf m) - max 0 (et - max hf m)"
    and "max 0 (et - max hf m) < et"
    and "et < min N (et + max hf m)"
  using assms by (auto simp: max_def min_def)

lemma set_margin_Inr:
  assumes "set_margin d m = Inr d'"
  shows "0 < m" and "fs (dlg_record d) \<noteq> 0"
    and "dlg_record d' = dlg_record d" and "event_time d' = event_time d"
    and "dlg_start d' = max 0 (of_int (event_time d) -
                          max (MINIMUM_MARGIN_IN_SECS * fs (dlg_record d)) m)"
    and "dlg_end d' = min (signal_len (dlg_record d)) (of_int (event_time d) +
                          max (MINIMUM_MARGIN_IN_SECS * fs (dlg_record d)) m)"
proof -
  from assms show m: "0 < m"
    by (simp add: set_margin_def split: if_splits)
  from assms m show nz: "fs (dlg_record d) \<noteq> 0"
    by (simp add: set_margin_def Let_def split: if_splits)
  from assms show "dlg_record d' = dlg_record d" "event_time d' = event_time d"
    "dlg_start d' = max 0 (of_int (event_time d) -
                          max (MINIMUM_MARGIN_IN_SECS * fs (dlg_record d)) m)"
    "dlg_end d' = min (signal_len (dlg_record d)) (of_int (event_time d) +
                          max (MINIMUM_MARGIN_IN_SECS * fs (dlg_record d)) m)"
    by (auto simp: set_margin_positive [OF m nz])
qed

lemma set_margin_invariants:
  assumes w: "window_in_signal d" and ev: "EventTime_invariant d"
    and sm: "set_margin d m = Inr d'"
  shows "window_in_signal d'" and "EventTime_invariant d'"
proof -
  note f = set_margin_Inr [OF sm]
  have et: "0 < rat_of_int (event_time d)" "rat_of_int (event_time d) < signal_len (dlg_record d)"
    using w ev by (auto simp: window_in_signal_def EventTime_invariant_def)
  have hf: "MINIMUM_MARGIN_IN_SECS * fs (dlg_record d) \<le> signal_len (dlg_record d)"
    using w by (auto simp: window_in_signal_def)
  note mw = margin_window [OF et f(1) hf]
  show "window_in_signal d'"
    unfolding window_in_signal_def f using mw by simp
  show "EventTime_invariant d'"
    unfolding EventTime_invariant_def f using mw by simp
qed

lemma TakanamiDialog_init_invariants:
  assumes init: "TakanamiDialog_init rnd doc t_start t_end ev takanami_margin = Inr d"
  shows "window_in_signal d" and "EventTime_invariant d"
proof -
  note f = TakanamiDialog_init_Inr [OF init]
  define r where "r = doc_record doc"
  define s where "s = py_int (fl_mul rnd t_start (fs r))"
  define e where "e = py_int (fl_mul rnd t_end (fs r))"
  define et where "et = (case ev of None \<Rightarrow> s + py_int (rat_of_int (e - s) / 2) | Some v \<Rightarrow> time v)"
  define m where "m = rat_of_int (py_int (fl_mul rnd takanami_margin (fs r)))"
  note g = f [folded r_def, folded s_def e_def, folded et_def m_def]
  have et: "0 < rat_of_int et" "rat_of_int et < signal_len r"
    using g(1,4,6,7) by (simp, meson less_trans of_int_less_iff)
  have "rat_of_int (e - s) \<le> rat_of_int e"
    using g(1) by simp
  with g(4,5) have hf: "MINIMUM_MARGIN_IN_SECS * fs r \<le> signal_len r"
    by linarith
  note mw = margin_window [OF et g(8) hf]
  show "window_in_signal d"
    unfolding window_in_signal_def g using mw by simp
  show "EventTime_invariant d"
    unfolding EventTime_invariant_def g using mw by simp
qed

lemma py_int_nonneg: "0 \<le> x \<Longrightarrow> 0 \<le> py_int x"
  by (simp add: py_int_def)

lemma py_int_le: "x \<le> of_nat n \<Longrightarrow> py_int x \<le> int n"
  by (auto simp: py_int_def floor_le_iff ceiling_le_iff
      intro: order_trans [where y = x] less_imp_le)

lemma is_index_of_int: "is_index (of_int k)"
  by (simp add: is_index_def)

lemma on_start_point_changed_start:
  "dlg_start (on_start_point_changed rnd d ms) =
     of_int (py_int (max 0 (fl_mul rnd (fl_div rnd (of_int ms) 1000) (fs (dlg_record d)))))"
  by (simp add: on_start_point_changed_def Let_def)

lemma on_end_point_changed_end:
  "dlg_end (on_end_point_changed rnd d ms) =
     of_int (py_int (min (signal_len (dlg_record d)) (fl_mul rnd (fl_div rnd (of_int ms) 1000) (fs (dlg_record d)))))"
  by (simp add: on_end_point_changed_def Let_def)

lemma on_start_point_changed_frame:
  "dlg_end (on_start_point_changed rnd d ms) = dlg_end d"
  "event_time (on_start_point_changed rnd d ms) = event_time d"
  "dlg_record (on_start_point_changed rnd d ms) = dlg_record d"
  "start_point_spinbox (on_start_point_changed rnd d ms) = start_point_spinbox d"
  "edit_time (end_point_spinbox (on_start_point_changed rnd d ms)) = edit_time (end_point_spinbox d)"
  "maximum_time (end_point_spinbox (on_start_point_changed rnd d ms)) =
     maximum_time (end_point_spinbox d)"
  by (simp_all add: on_start_point_changed_def Let_def setMinimumTime_def)

lemma on_end_point_changed_frame:
  "dlg_start (on_end_point_changed rnd d ms) = dlg_start d"
  "event_time (on_end_point_changed rnd d ms) = event_time d"
  "dlg_record (on_end_point_changed rnd d ms) = dlg_record d"
  "end_point_spinbox (on_end_point_changed rnd d ms) = end_point_spinbox d"
  "edit_time (start_point_spinbox (on_end_point_changed rnd d ms)) = edit_time (start_point_spinbox d)"
  "minimum_time (start_point_spinbox (on_end_point_changed rnd d ms)) =
     minimum_time (start_point_spinbox d)"
  by (simp_all add: on_end_point_changed_def Let_def setMaximumTime_def)

lemma on_start_point_changed_idem:
  "on_start_point_changed rnd (on_start_point_changed rnd d ms) ms =
     on_start_point_changed rnd d ms"
proof -
  have "dlg_start (on_start_point_changed rnd d ms) =
      of_int (py_int (max 0 (fl_mul rnd (fl_div rnd (of_int ms) 1000)
        (fs (dlg_record (on_start_point_changed rnd d ms))))))"
    by (simp add: on_start_point_changed_start on_start_point_changed_frame)
  then show ?thesis
    by (subst on_start_point_changed_def) (simp add: Let_def)
qed

lemma on_end_point_changed_idem:
  "on_end_point_changed rnd (on_end_point_changed rnd d ms) ms =
     on_end_point_changed rnd d ms"
proof -
  have "dlg_end (on_end_point_changed rnd d ms) =
      of_int (py_int (min (signal_len (dlg_record (on_end_point_changed rnd d ms)))
        (fl_mul rnd (fl_div rnd (of_int ms) 1000)
           (fs (dlg_record (on_end_point_changed rnd d ms))))))"
    by (simp add: on_end_point_changed_end on_end_point_changed_frame)
  then show ?thesis
    by (subst on_end_point_changed_def) (simp add: Let_def)
qed

lemmas edit_defs = on_start_point_changed_def on_end_point_changed_def Let_def

text \<open>
  Two things the window is not promised. With a stored margin of 0.25 seconds at 5 Hz the
  effective margin is 2.5 samples, and the constructor leaves the bounds 17.5 and 22.5.
  And two edits that respect the limits of the spin boxes, the start to 250 ms and then
  the end to 750 ms (the minimum the first edit has set), store the samples 1 and 3: a
  window of 2 samples, less than half a second.
\<close>

lemma coarse_dialog_init:
  "TakanamiDialog_init exact coarse_document 2 6 None 5 = Inr coarse_dialog"
  by (simp add: TakanamiDialog_init_def init_ui_def load_settings_def set_margin_def
      scenario_defs Let_def coarse_dialog_def coarse_document_def)

lemma margin_window_not_integral:
  "map_sum id dlg_start (TakanamiDialog_init exact coarse_document 2 6 None (1 / 4))
     = Inr (35 / 2) \<and>
   map_sum id dlg_end (TakanamiDialog_init exact coarse_document 2 6 None (1 / 4))
     = Inr (45 / 2) \<and>
   \<not> is_index (35 / 2) \<and> \<not> is_index (45 / 2)"
proof -
  have "\<lfloor>35 / 2 :: rat\<rfloor> = 17" "\<lfloor>45 / 2 :: rat\<rfloor> = 22" "\<lfloor>5 / 4 :: rat\<rfloor> = 1"
    by (simp_all add: floor_eq_iff)
  then have "\<not> is_index (35 / 2)" "\<not> is_index (45 / 2)" "\<lfloor>5 / 4 :: rat\<rfloor> = 1"
    by (simp_all add: is_index_def)
  then show ?thesis
    by (simp add: TakanamiDialog_init_def init_ui_def load_settings_def set_margin_def
      scenario_defs Let_def coarse_document_def)
qed

lemma edits_within_limits_break_width:
  "minimum_time (start_point_spinbox coarse_dialog) \<le> 250 \<and>
   250 \<le> maximum_time (start_point_spinbox coarse_dialog) \<and>
   minimum_time (end_point_spinbox (on_start_point_changed exact coarse_dialog 250)) \<le> 750 \<and>
   750 \<le> maximum_time (end_point_spinbox (on_start_point_changed exact coarse_dialog 250)) \<and>
   dlg_start (on_end_point_changed exact (on_start_point_changed exact coarse_dialog 250) 750)
     = 1 \<and>
   dlg_end (on_end_point_changed exact (on_start_point_changed exact coarse_dialog 250) 750)
     = 3 \<and>
   \<not> window_in_signal
        (on_end_point_changed exact (on_start_point_changed exact coarse_dialog 250) 750)"
proof -
  have "\<lfloor>5 / 4 :: rat\<rfloor> = 1" "\<lfloor>15 / 4 :: rat\<rfloor> = 3"
    by (simp_all add: floor_eq_iff)
  then show ?thesis
    by (simp add: window_in_signal_def edit_defs coarse_dialog_def coarse_document_def
        scenario_defs)
qed

text \<open>
  The rounding decides the sample. At 100 Hz the exact value of
  \<^verbatim>\<open>(290 / 1000.0) * 100.0\<close> is 29, and a unit that computes it exactly stores 29; a
  unit whose result lies below 29, as that of IEEE doubles does, stores 28, and so passes
  the guard of line 202 when 29 is the stored start.
\<close>

lemma rounding_decides_sample:
  assumes "fs (dlg_record d) = 100"
    and "28 \<le> fl_mul rnd (fl_div rnd 290 1000) 100"
    and "fl_mul rnd (fl_div rnd 290 1000) 100 < 29"
  shows "dlg_start (on_start_point_changed rnd d 290) = 28"
    and "dlg_start (on_start_point_changed exact d 290) = 29"
proof -
  from assms(2,3) have "\<lfloor>fl_mul rnd (fl_div rnd 290 1000) 100\<rfloor> = 28"
    by (simp add: floor_eq_iff)
  with assms show "dlg_start (on_start_point_changed rnd d 290) = 28"
    by (simp add: on_start_point_changed_start py_int_def)
  from assms(1) show "dlg_start (on_start_point_changed exact d 290) = 29"
    by (simp add: on_start_point_changed_start py_int_def fl_mul_def fl_div_def exact_def)
qed

text \<open>
  In the same way the constructor follows the indices that the unit yields: when the
  products for \<open>t_start\<close> and \<open>t_end\<close> truncate to 7 and 56 at 100 Hz, as those of IEEE
  doubles do for 0.07 and 0.57 seconds, the window is 49 samples wide and is refused.
\<close>

lemma rounding_decides_window:
  assumes "py_int (fl_mul rnd t_start (fs (doc_record scenario_document))) = 7"
    and "py_int (fl_mul rnd t_end (fs (doc_record scenario_document))) = 56"
  shows "TakanamiDialog_init rnd scenario_document t_start t_end ev takanami_margin =
    Inl (ValueError ''Distance between t_start and t_end must be at least of 0.5 seconds'')"
  using assms
  by (simp add: TakanamiDialog_init_def Let_def scenario_document_def scenario_record_def
      signal_len_def MINIMUM_MARGIN_IN_SECS_def)
section \<open>The claims about TakanamiTask\<close>

subsection \<open>C1: what a run emits\<close>

text \<open>
  C1 as stated includes that a run emits neither signal when \<^verbatim>\<open>abort()\<close> was called
  before \<^verbatim>\<open>run()\<close> begins. Line 69 resets the flag on entry, so that request is lost:
  with one \<^verbatim>\<open>abort()\<close> before the run and none after, both signals are sent.
\<close>

theorem abort_before_run_counterexample:
  "emitted (exec (fixed_algorithm (500, [], 0)) (run_schedule 1 0 0 0 0 0)
     (TakanamiTask_init scenario_record 400 600)) = [position_estimated 500 [] 0, finished]"
  by (simp add: run_schedule_def run_step.simps abort_def TakanamiTask_init_def
      fixed_algorithm_def scenario_record_def start_time_in_secs_def end_time_in_secs_def
      signal_len_def)

text \<open>
  C1, amended: for every complete run whose algorithm call returns, whatever the number of
  \<^verbatim>\<open>abort()\<close> calls at each point, \<^verbatim>\<open>run()\<close> returns, and it has emitted
  \<^verbatim>\<open>position_estimated\<close> once and then \<^verbatim>\<open>finished\<close> once, in that order, when no
  \<^verbatim>\<open>abort()\<close> came between the reset of the flag on entry and the second checkpoint
  (\<open>n1 = n2 = n3 = 0\<close>), and nothing at all otherwise. Calls of \<^verbatim>\<open>abort()\<close> before
  \<^verbatim>\<open>run()\<close> begins (\<open>n0\<close>) or after the second checkpoint (\<open>n4\<close>, \<open>n5\<close>) change nothing.
\<close>

theorem task_run_emits:
  assumes "fs r \<noteq> 0"
    and "alg (signal r) (fs r) (max 0 s / fs r) (min (signal_len r) e / fs r)
           = Inr (et, aic, n0_aic)"
  shows "pc (exec alg (run_schedule n0 n1 n2 n3 n4 n5) (TakanamiTask_init r s e)) = Returned \<and>
     emitted (exec alg (run_schedule n0 n1 n2 n3 n4 n5) (TakanamiTask_init r s e)) =
       (if n1 = 0 \<and> n2 = 0 \<and> n3 = 0 then [position_estimated et aic n0_aic, finished] else [])"
proof (cases "n1 = 0")
  case False
  define u where "u = at_checkpoint1 alg n0 n1 (TakanamiTask_init r s e)"
  note u = at_checkpoint1_fields [OF assms(1), of alg n0 n1 s e, folded u_def]
  have step: "run_step alg u = u\<lparr>pc := Returned\<rparr>"
    using u False by (simp add: run_step_AtCheckpoint1)
  have halted: "pc (run_step alg u) = Returned \<or> pc (run_step alg u) = Raised undefined"
    by (simp add: step)
  have "exec alg (run_schedule n0 n1 n2 n3 n4 n5) (TakanamiTask_init r s e) =
      exec alg (replicate n2 Abort @ [Step] @ replicate n3 Abort @ [Step] @
               replicate n4 Abort @ [Step] @ replicate n5 Abort) (run_step alg u)"
    by (simp add: run_schedule_split u_def)
  with exec_halted [OF halted] u False show ?thesis
    by (simp add: step)
next
  case True
  define u where "u = at_checkpoint2 alg n0 n2 n3 (TakanamiTask_init r s e)"
  note u = at_checkpoint2_fields [where alg = alg and r = r and s = s and e = e
      and est = "(et, aic, n0_aic)", OF assms, of n0 n2 n3, folded u_def]
  have sched: "exec alg (run_schedule n0 n1 n2 n3 n4 n5) (TakanamiTask_init r s e) =
      exec alg (replicate n4 Abort @ [Step] @ replicate n5 Abort) (run_step alg u)"
    by (simp add: True run_schedule_split2 u_def)
  show ?thesis
  proof (cases "n2 = 0 \<and> n3 = 0")
    case False
    have step: "run_step alg u = u\<lparr>pc := Returned\<rparr>"
      using u False by (auto simp: run_step_AtCheckpoint2)
    have halted: "pc (run_step alg u) = Returned \<or> pc (run_step alg u) = Raised undefined"
      by (simp add: step)
    from exec_halted [OF halted] u False sched show ?thesis
      by (simp add: step)
  next
    case noabort: True
    have step: "run_step alg u = u\<lparr>pc := EmittedPosition,
        emitted := [position_estimated et aic n0_aic]\<rparr>"
      using u noabort by (simp add: run_step_AtCheckpoint2)
    define v where "v = exec alg (replicate n4 Abort) (run_step alg u)"
    have v: "pc v = EmittedPosition" "emitted v = [position_estimated et aic n0_aic]"
      by (simp_all add: v_def exec_aborts_fields step)
    have last: "run_step alg v = v\<lparr>pc := Returned,
        emitted := [position_estimated et aic n0_aic, finished]\<rparr>"
      using v by (simp add: run_step_EmittedPosition)
    have "exec alg (run_schedule n0 n1 n2 n3 n4 n5) (TakanamiTask_init r s e) =
        exec alg (replicate n5 Abort) (run_step alg v)"
      by (simp add: sched exec_append v_def)
    with True noabort show ?thesis
      by (simp add: exec_aborts_fields last)
  qed
qed

theorem task_run_emits_witness:
  "fs scenario_record \<noteq> 0 \<and>
   fixed_algorithm (500, [], 0) (signal scenario_record) (fs scenario_record)
     (max 0 400 / fs scenario_record) (min (signal_len scenario_record) 600 / fs scenario_record)
     = Inr (500, [], 0) \<and>
   pc (exec (fixed_algorithm (500, [], 0)) (run_schedule 0 0 0 0 0 0)
         (TakanamiTask_init scenario_record 400 600)) = Returned \<and>
   emitted (exec (fixed_algorithm (500, [], 0)) (run_schedule 0 0 0 0 0 0)
         (TakanamiTask_init scenario_record 400 600)) = [position_estimated 500 [] 0, finished] \<and>
   emitted (exec (fixed_algorithm (500, [], 0)) (run_schedule 0 1 0 0 0 0)
         (TakanamiTask_init scenario_record 400 600)) = [] \<and>
   emitted (exec (fixed_algorithm (500, [], 0)) (run_schedule 0 0 1 0 0 0)
         (TakanamiTask_init scenario_record 400 600)) = []"
proof -
  have h1: "fs scenario_record \<noteq> 0"
    by (simp add: scenario_record_def)
  have h2: "fixed_algorithm (500, [], 0) (signal scenario_record) (fs scenario_record)
     (max 0 400 / fs scenario_record) (min (signal_len scenario_record) 600 / fs scenario_record)
     = Inr (500, [], 0)"
    by (simp add: fixed_algorithm_def)
  note run = task_run_emits [where alg = "fixed_algorithm (500, [], 0)" and r = scenario_record
      and s = 400 and e = 600 and et = 500 and aic = "[]" and ?n0_aic = 0, OF h1 h2]
  show ?thesis
    using h1 h2 run [of 0 0 0 0 0 0] run [of 0 1 0 0 0 0] run [of 0 0 1 0 0 0]
    by simp
qed

subsection \<open>C9: the algorithm raises\<close>

text \<open>
  C9: when the algorithm raises during a run (so the first checkpoint was passed and the
  algorithm was called), the exception leaves \<^verbatim>\<open>run()\<close>, which has no handler, and
  neither \<^verbatim>\<open>position_estimated\<close> nor \<^verbatim>\<open>finished\<close> is sent, whatever calls of
  \<^verbatim>\<open>abort()\<close> happen before, during or after the call of the algorithm.
\<close>

theorem task_run_algorithm_raises:
  assumes "fs r \<noteq> 0"
    and "alg (signal r) (fs r) (max 0 s / fs r) (min (signal_len r) e / fs r) = Inl err"
  shows "pc (exec alg (run_schedule n0 0 n2 n3 n4 n5) (TakanamiTask_init r s e)) = Raised err \<and>
     emitted (exec alg (run_schedule n0 0 n2 n3 n4 n5) (TakanamiTask_init r s e)) = [] \<and>
     algorithm_calls (exec alg (run_schedule n0 0 n2 n3 n4 n5) (TakanamiTask_init r s e)) =
       [(signal r, fs r, max 0 s / fs r, min (signal_len r) e / fs r)]"
proof -
  define u where "u = in_algorithm alg n0 n2 (TakanamiTask_init r s e)"
  note u = in_algorithm_fields [where alg = alg and r = r, OF assms(1), of n0 n2 s e,
      folded u_def]
  note raised = algorithm_raises [where alg = alg and r = r and s = s and e = e and err = err,
      OF assms, of n0 n2, folded u_def]
  have step: "run_step alg u = u\<lparr>pc := Raised err\<rparr>"
    using u assms(2) by (simp add: run_step_InAlgorithm)
  have halted: "pc (run_step alg u) = Returned \<or> pc (run_step alg u) = Raised err"
    using raised by simp
  have "exec alg (run_schedule n0 0 n2 n3 n4 n5) (TakanamiTask_init r s e) =
      exec alg (replicate n3 Abort @ [Step] @ replicate n4 Abort @ [Step] @ replicate n5 Abort)
        (run_step alg u)"
    by (simp add: run_schedule_split3 u_def)
  with exec_halted [OF halted] raised u show ?thesis
    by (simp add: step)
qed

theorem task_run_algorithm_raises_witness:
  "fs scenario_record \<noteq> 0 \<and>
   failing_algorithm (AlgorithmError ''singular matrix'') (signal scenario_record)
     (fs scenario_record) (max 0 400 / fs scenario_record)
     (min (signal_len scenario_record) 600 / fs scenario_record)
     = Inl (AlgorithmError ''singular matrix'') \<and>
   pc (exec (failing_algorithm (AlgorithmError ''singular matrix'')) (run_schedule 0 0 0 0 0 0)
         (TakanamiTask_init scenario_record 400 600)) = Raised (AlgorithmError ''singular matrix'') \<and>
   emitted (exec (failing_algorithm (AlgorithmError ''singular matrix'')) (run_schedule 0 0 0 0 0 0)
         (TakanamiTask_init scenario_record 400 600)) = []"
proof -
  have h1: "fs scenario_record \<noteq> 0"
    by (simp add: scenario_record_def)
  have h2: "failing_algorithm (AlgorithmError ''singular matrix'') (signal scenario_record)
     (fs scenario_record) (max 0 400 / fs scenario_record)
     (min (signal_len scenario_record) 600 / fs scenario_record)
     = Inl (AlgorithmError ''singular matrix'')"
    by (simp add: failing_algorithm_def)
  note run = task_run_algorithm_raises [where alg = "failing_algorithm (AlgorithmError ''singular matrix'')"
      and r = scenario_record and s = 400 and e = 600 and err = "AlgorithmError ''singular matrix''",
      OF h1 h2]
  show ?thesis
    using h1 h2 run [of 0 0 0 0 0] by simp
qed

subsection \<open>C10: the times handed to the algorithm\<close>

text \<open>
  C10 as stated concludes that both time arguments lie within \<open>[0, N / fs]\<close> for every
  stored pair of bounds. Line 70 clamps the start from below only and line 71 the end from
  above only: with \<open>start = 20000\<close> on 10000 samples at 100 Hz the algorithm is called with a
  start of 200 seconds, beyond \<open>N / fs = 100\<close>.
\<close>

theorem run_times_counterexample:
  "algorithm_calls (exec (fixed_algorithm (500, [], 0)) (run_schedule 0 0 0 0 0 0)
      (TakanamiTask_init scenario_record 20000 30000))
     = [(signal scenario_record, fs scenario_record, 200, 100)] \<and>
   \<not> 200 \<le> signal_len scenario_record / fs scenario_record"
  by (simp add: run_schedule_def run_step.simps abort_def TakanamiTask_init_def
      fixed_algorithm_def scenario_record_def start_time_in_secs_def end_time_in_secs_def
      signal_len_def)

text \<open>
  C10, amended: with a positive sample rate, every call of the algorithm, in every
  execution, has the arguments \<open>start_seconds = max 0 start / fs\<close> and
  \<open>end_seconds = min N end / fs\<close>, and a complete run that passes the first checkpoint
  makes exactly one such call. For every stored pair \<open>0 \<le> start_seconds\<close> and
  \<open>end_seconds \<le> N / fs\<close>; the other two bounds hold only under a condition on the stored
  value: \<open>start_seconds \<le> N / fs\<close> when \<open>start \<le> N\<close>, and \<open>0 \<le> end_seconds\<close> when
  \<open>0 \<le> end\<close>.
\<close>

theorem run_times:
  assumes "0 < fs r"
  shows "list_all (\<lambda>c. c = (signal r, fs r, start_time_in_secs (TakanamiTask_init r s e),
                            end_time_in_secs (TakanamiTask_init r s e)))
           (algorithm_calls (exec alg sched (TakanamiTask_init r s e))) \<and>
     algorithm_calls (exec alg (run_schedule n0 0 n2 n3 n4 n5) (TakanamiTask_init r s e)) =
       [(signal r, fs r, start_time_in_secs (TakanamiTask_init r s e),
         end_time_in_secs (TakanamiTask_init r s e))] \<and>
     start_time_in_secs (TakanamiTask_init r s e) = max 0 s / fs r \<and>
     end_time_in_secs (TakanamiTask_init r s e) = min (signal_len r) e / fs r \<and>
     0 \<le> start_time_in_secs (TakanamiTask_init r s e) \<and>
     end_time_in_secs (TakanamiTask_init r s e) \<le> signal_len r / fs r \<and>
     (s \<le> signal_len r \<longrightarrow> start_time_in_secs (TakanamiTask_init r s e) \<le> signal_len r / fs r) \<and>
     (0 \<le> e \<longrightarrow> 0 \<le> end_time_in_secs (TakanamiTask_init r s e))"
proof -
  have st: "start_time_in_secs (TakanamiTask_init r s e) = max 0 s / fs r"
    by (simp add: start_time_in_secs_def TakanamiTask_init_def)
  have en: "end_time_in_secs (TakanamiTask_init r s e) = min (signal_len r) e / fs r"
    by (simp add: end_time_in_secs_def TakanamiTask_init_def)
  have nz: "fs r \<noteq> 0"
    using assms by simp
  have len: "0 \<le> signal_len r"
    by (simp add: signal_len_def)
  have all: "list_all (\<lambda>c. c = (signal r, fs r, max 0 s / fs r, min (signal_len r) e / fs r))
           (algorithm_calls (exec alg sched (TakanamiTask_init r s e)))"
    using calls_ok_exec [OF calls_ok_init, where alg = alg and sched = sched and r = r and s = s and e = e] by (simp add: calls_ok_def)
  define u where "u = in_algorithm alg n0 n2 (TakanamiTask_init r s e)"
  note u = in_algorithm_fields [where alg = alg and r = r, OF nz, of n0 n2 s e, folded u_def]
  have "past_checkpoint1 u"
    using u by (simp add: past_checkpoint1_def)
  then have "past_checkpoint1 (run_step alg u)"
    and "algorithm_calls (run_step alg u) = algorithm_calls u"
    using run_step_past_checkpoint1 [of u alg] by simp_all
  then have once: "algorithm_calls (exec alg (run_schedule n0 0 n2 n3 n4 n5) (TakanamiTask_init r s e))
      = [(signal r, fs r, max 0 s / fs r, min (signal_len r) e / fs r)]"
    using u by (simp add: run_schedule_split3 exec_past_checkpoint1 flip: u_def)
  have b1: "0 \<le> max 0 s / fs r"
    using assms by simp
  have b2: "min (signal_len r) e / fs r \<le> signal_len r / fs r"
    using assms by (simp add: divide_le_cancel)
  have b3: "s \<le> signal_len r \<longrightarrow> max 0 s / fs r \<le> signal_len r / fs r"
    using assms len by (simp add: divide_le_cancel)
  have b4: "0 \<le> e \<longrightarrow> 0 \<le> min (signal_len r) e / fs r"
    using assms len by simp
  from all once b1 b2 b3 b4 show ?thesis
    by (simp only: st en)
qed

theorem run_times_witness:
  "0 < fs scenario_record \<and> - 5 \<le> signal_len scenario_record \<and> (0::rat) \<le> 10050 \<and>
   algorithm_calls (exec (fixed_algorithm (500, [], 0)) (run_schedule 0 0 0 0 0 0)
     (TakanamiTask_init scenario_record (- 5) 10050)) = [(signal scenario_record, 100, 0, 100)] \<and>
   start_time_in_secs (TakanamiTask_init scenario_record (- 5) 10050) = 0 \<and>
   end_time_in_secs (TakanamiTask_init scenario_record (- 5) 10050) = 100"
proof -
  have h: "0 < fs scenario_record"
    by (simp add: scenario_record_def)
  show ?thesis
    using h run_times [OF h, where s = "- 5" and e = 10050 and alg = "fixed_algorithm (500, [], 0)"
        and sched = "[]" and ?n0.0 = 0 and ?n2.0 = 0 and ?n3.0 = 0 and ?n4.0 = 0 and ?n5.0 = 0]
    by (simp add: start_time_in_secs_def end_time_in_secs_def TakanamiTask_init_def
        scenario_record_def signal_len_def)
qed

section \<open>The claims about TakanamiDialog\<close>

subsection \<open>C2: the margin\<close>

text \<open>
  C2: \<^verbatim>\<open>set_margin(m)\<close> fails with an error when \<open>m \<le> 0\<close>. When \<open>m > 0\<close>, with the
  effective margin \<open>M = max (0.5 * fs) m\<close>, the window becomes
  \<open>start = max 0 (event_time - M)\<close> and \<open>end = min N (event_time + M)\<close>, and \<open>event_time\<close>
  is unchanged. The sample rate of a session is never zero (\<open>TakanamiDialog_init_fs\<close>
  below); with a zero rate the conversion to milliseconds of lines 259-264 raises.
\<close>

theorem set_margin_window:
  "(m \<le> 0 \<longrightarrow> set_margin d m = Inl (ValueError ''margin must be a positive value'')) \<and>
   (0 < m \<and> fs (dlg_record d) \<noteq> 0 \<longrightarrow>
      (\<exists>d'. set_margin d m = Inr d' \<and>
         dlg_start d' = max 0 (of_int (event_time d) -
                          max (MINIMUM_MARGIN_IN_SECS * fs (dlg_record d)) m) \<and>
         dlg_end d' = min (signal_len (dlg_record d)) (of_int (event_time d) +
                          max (MINIMUM_MARGIN_IN_SECS * fs (dlg_record d)) m) \<and>
         event_time d' = event_time d))"
  by (simp add: set_margin_nonpositive set_margin_positive)

theorem set_margin_window_witness:
  "(- 3 :: rat) \<le> 0 \<and>
   set_margin scenario_dialog (- 3) = Inl (ValueError ''margin must be a positive value'') \<and>
   (0 :: rat) < 50 \<and> fs (dlg_record scenario_dialog) \<noteq> 0 \<and>
   (\<exists>d'. set_margin scenario_dialog 50 = Inr d' \<and> dlg_start d' = 450 \<and> dlg_end d' = 550 \<and>
      event_time d' = 500)"
  using set_margin_window [of "- 3" scenario_dialog] set_margin_window [of 50 scenario_dialog]
  by (simp add: scenario_dialog_def scenario_defs)

subsection \<open>C4: the commit\<close>

text \<open>
  C4: \<^verbatim>\<open>save_event\<close> leaves the dialog and its document untouched when an event is
  being refined and its time equals the estimate; it makes exactly one \<^verbatim>\<open>editEvent\<close>
  call with the new time, method Takanami, mode automatic and status reported when the
  time differs; and exactly one \<^verbatim>\<open>createEvent\<close> call with the estimate and the same
  method, mode and status when there is no event.
\<close>

theorem save_event_calls:
  "(dlg_seismic_event d = Some ev \<and> time ev = event_time d \<longrightarrow> save_event d = d) \<and>
   (dlg_seismic_event d = Some ev \<and> time ev \<noteq> event_time d \<longrightarrow>
      save_event d = d\<lparr>dlg_document := (dlg_document d)\<lparr>doc_calls := doc_calls (dlg_document d) @
        [editEvent ev (event_time d) method_takanami mode_automatic status_reported]\<rparr>\<rparr>) \<and>
   (dlg_seismic_event d = None \<longrightarrow>
      save_event d = d\<lparr>dlg_document := (dlg_document d)\<lparr>doc_calls := doc_calls (dlg_document d) @
        [createEvent (event_time d) method_takanami mode_automatic status_reported]\<rparr>\<rparr>)"
  by (simp add: save_event_def)

theorem save_event_calls_witness:
  "dlg_seismic_event (scenario_dialog\<lparr>dlg_seismic_event := Some \<lparr>time = 500\<rparr>\<rparr>)
      = Some \<lparr>time = 500\<rparr> \<and>
   time \<lparr>time = 500\<rparr> = event_time (scenario_dialog\<lparr>dlg_seismic_event := Some \<lparr>time = 500\<rparr>\<rparr>) \<and>
   doc_calls (dlg_document (save_event (scenario_dialog\<lparr>dlg_seismic_event := Some \<lparr>time = 500\<rparr>\<rparr>)))
      = [] \<and>
   dlg_seismic_event (scenario_dialog\<lparr>dlg_seismic_event := Some \<lparr>time = 480\<rparr>\<rparr>)
      = Some \<lparr>time = 480\<rparr> \<and>
   time \<lparr>time = 480\<rparr> \<noteq> event_time (scenario_dialog\<lparr>dlg_seismic_event := Some \<lparr>time = 480\<rparr>\<rparr>) \<and>
   doc_calls (dlg_document (save_event (scenario_dialog\<lparr>dlg_seismic_event := Some \<lparr>time = 480\<rparr>\<rparr>)))
      = [editEvent \<lparr>time = 480\<rparr> 500 method_takanami mode_automatic status_reported] \<and>
   dlg_seismic_event scenario_dialog = None \<and>
   doc_calls (dlg_document (save_event scenario_dialog))
      = [createEvent 500 method_takanami mode_automatic status_reported]"
  using save_event_calls [of "scenario_dialog\<lparr>dlg_seismic_event := Some \<lparr>time = 500\<rparr>\<rparr>" "\<lparr>time = 500\<rparr>"]
    save_event_calls [of "scenario_dialog\<lparr>dlg_seismic_event := Some \<lparr>time = 480\<rparr>\<rparr>" "\<lparr>time = 480\<rparr>"]
    save_event_calls [of scenario_dialog undefined]
  by (simp add: scenario_dialog_def scenario_document_def)

subsection \<open>C6: the arrival of a result\<close>

text \<open>
  C6: \<^verbatim>\<open>on_position_estimated\<close> replaces \<open>event_time\<close> by the time of the result and
  leaves the window (\<open>_start\<close>, \<open>_end\<close>), the spin boxes, the task and the document as
  they are. The sample rate of a session is never zero (\<open>TakanamiDialog_init_fs\<close>).
\<close>

theorem on_position_estimated_frame:
  "fs (dlg_record d) \<noteq> 0 \<Longrightarrow>
   \<exists>d'. on_position_estimated d t aic n0_aic = Inr d' \<and> event_time d' = t \<and>
     dlg_start d' = dlg_start d \<and> dlg_end d' = dlg_end d \<and>
     start_point_spinbox d' = start_point_spinbox d \<and>
     end_point_spinbox d' = end_point_spinbox d \<and> dlg_task d' = dlg_task d \<and>
     dlg_document d' = dlg_document d"
  by (simp add: on_position_estimated_def Let_def)

theorem on_position_estimated_frame_witness:
  "fs (dlg_record scenario_dialog) \<noteq> 0 \<and>
   (\<exists>d'. on_position_estimated scenario_dialog 520 [] 0 = Inr d' \<and> event_time d' = 520 \<and>
     dlg_start d' = 0 \<and> dlg_end d' = 1000)"
proof -
  have h: "fs (dlg_record scenario_dialog) \<noteq> 0"
    by (simp add: scenario_dialog_def scenario_record_def)
  from on_position_estimated_frame [OF h, of 520 "[]" 0] h show ?thesis
    by (auto simp: scenario_dialog_def)
qed

subsection \<open>C3: the constructor\<close>

text \<open>
  C3 as stated says that after a successful construction the fields \<open>start\<close> and \<open>end\<close>
  equal the inputs. The constructor calls \<^verbatim>\<open>load_settings\<close> (line 124), which replaces
  the window by the margin around the event time: for 10000 samples at 100 Hz, the window
  from 4 to 6 seconds (samples 400 and 600) and the default margin of 5 seconds, the dialog
  holds the window from 0 to 1000.
\<close>

theorem construction_overwrites_window_counterexample:
  "py_int (fl_mul exact 4 (fs (doc_record scenario_document))) = 400 \<and>
   py_int (fl_mul exact 6 (fs (doc_record scenario_document))) = 600 \<and>
   TakanamiDialog_init exact scenario_document 4 6 None 5 = Inr scenario_dialog \<and>
   event_time scenario_dialog = 500 \<and>
   dlg_start scenario_dialog \<noteq> 400 \<and> dlg_end scenario_dialog \<noteq> 600"
  by (simp add: scenario_dialog_init) (simp add: scenario_dialog_def scenario_defs)

text \<open>
  C3, amended: for every rounding of the floating point unit, with \<open>s\<close> and \<open>e\<close> the
  sample indices that lines 105 and 106 compute from \<open>t_start\<close> and \<open>t_end\<close> (the truncated
  double products), \<open>et\<close> the time of the given event or else the midpoint
  \<open>s + int((e - s) / 2)\<close>, and \<open>m\<close> the stored margin in samples as line 231 computes it: if \<open>0 \<le> s < e < N\<close>, \<open>e - s \<ge> 0.5 * fs\<close> and \<open>s < et < e\<close>, then
  construction succeeds when \<open>m > 0\<close>, with \<open>event_time = et\<close> and the window
  \<open>max 0 (et - M)\<close>, \<open>min N (et + M)\<close> for \<open>M = max (0.5 * fs) m\<close>, which is also the window
  of the first task; it fails with the error of \<^verbatim>\<open>set_margin\<close> when \<open>m \<le> 0\<close>. If any one
  of the conditions is violated, construction fails with a \<^verbatim>\<open>ValueError\<close> and returns no
  dialog.
\<close>

theorem TakanamiDialog_init_cases:
  fixes rnd doc t_start t_end ev takanami_margin
  defines "r \<equiv> doc_record doc"
  defines "s \<equiv> py_int (fl_mul rnd t_start (fs r))" and "e \<equiv> py_int (fl_mul rnd t_end (fs r))"
  defines "et \<equiv> (case ev of None \<Rightarrow> s + py_int (rat_of_int (e - s) / 2) | Some v \<Rightarrow> time v)"
  defines "m \<equiv> rat_of_int (py_int (fl_mul rnd takanami_margin (fs r)))"
  defines "valid \<equiv> 0 \<le> s \<and> s < e \<and> rat_of_int e < signal_len r \<and>
      MINIMUM_MARGIN_IN_SECS * fs r \<le> rat_of_int (e - s) \<and> s < et \<and> et < e"
  shows "(valid \<and> 0 < m \<longrightarrow>
      (\<exists>d. TakanamiDialog_init rnd doc t_start t_end ev takanami_margin = Inr d \<and>
         event_time d = et \<and>
         dlg_start d = max 0 (rat_of_int et - max (MINIMUM_MARGIN_IN_SECS * fs r) m) \<and>
         dlg_end d = min (signal_len r) (rat_of_int et + max (MINIMUM_MARGIN_IN_SECS * fs r) m) \<and>
         dlg_seismic_event d = ev \<and> dlg_document d = doc \<and>
         dlg_task d = Some (TakanamiTask_init r (dlg_start d) (dlg_end d)))) \<and>
     (valid \<and> m \<le> 0 \<longrightarrow>
        TakanamiDialog_init rnd doc t_start t_end ev takanami_margin =
          Inl (ValueError ''margin must be a positive value'')) \<and>
     (\<not> valid \<longrightarrow>
        (\<exists>msg. TakanamiDialog_init rnd doc t_start t_end ev takanami_margin = Inl (ValueError msg)))"
proof (intro conjI impI)
  assume v: "valid \<and> 0 < m"
  then obtain d where d: "TakanamiDialog_init rnd doc t_start t_end ev takanami_margin = Inr d"
    using TakanamiDialog_init_accepts(1) [where rnd = rnd and doc = doc and t_start = t_start and t_end = t_end
        and ev = ev and takanami_margin = takanami_margin]
    unfolding valid_def r_def s_def e_def et_def m_def by blast
  note f = TakanamiDialog_init_Inr [OF d, folded r_def, folded s_def e_def, folded et_def m_def]
  show "\<exists>d. TakanamiDialog_init rnd doc t_start t_end ev takanami_margin = Inr d \<and>
         event_time d = et \<and>
         dlg_start d = max 0 (rat_of_int et - max (MINIMUM_MARGIN_IN_SECS * fs r) m) \<and>
         dlg_end d = min (signal_len r) (rat_of_int et + max (MINIMUM_MARGIN_IN_SECS * fs r) m) \<and>
         dlg_seismic_event d = ev \<and> dlg_document d = doc \<and>
         dlg_task d = Some (TakanamiTask_init r (dlg_start d) (dlg_end d))"
    using d f(11-16) by blast
next
  assume v: "valid \<and> m \<le> 0"
  then show "TakanamiDialog_init rnd doc t_start t_end ev takanami_margin =
      Inl (ValueError ''margin must be a positive value'')"
    using TakanamiDialog_init_accepts(2) [where rnd = rnd and doc = doc and t_start = t_start and t_end = t_end
        and ev = ev and takanami_margin = takanami_margin]
    unfolding valid_def r_def s_def e_def et_def m_def by blast
next
  assume "\<not> valid"
  then show "\<exists>msg. TakanamiDialog_init rnd doc t_start t_end ev takanami_margin = Inl (ValueError msg)"
    using TakanamiDialog_init_rejects [where rnd = rnd and doc = doc and t_start = t_start and t_end = t_end
        and ev = ev and takanami_margin = takanami_margin]
    unfolding valid_def r_def s_def e_def et_def by blast
qed

theorem TakanamiDialog_init_cases_witness:
  "(\<exists>d. TakanamiDialog_init exact scenario_document 4 6 None 5 = Inr d \<and> event_time d = 500 \<and>
      dlg_start d = 0 \<and> dlg_end d = 1000 \<and> dlg_seismic_event d = None \<and>
      dlg_document d = scenario_document \<and>
      dlg_task d = Some (TakanamiTask_init scenario_record (dlg_start d) (dlg_end d))) \<and>
   TakanamiDialog_init exact scenario_document 4 6 None 0 =
     Inl (ValueError ''margin must be a positive value'') \<and>
   (\<exists>msg. TakanamiDialog_init exact scenario_document 4 (17 / 4) None 5 =
      Inl (ValueError msg))"
  using TakanamiDialog_init_cases [where rnd = exact and doc = scenario_document
      and t_start = 4 and t_end = 6 and ev = None and takanami_margin = 5]
    TakanamiDialog_init_cases [where rnd = exact and doc = scenario_document
      and t_start = 4 and t_end = 6 and ev = None and takanami_margin = 0]
    TakanamiDialog_init_cases [where rnd = exact and doc = scenario_document
      and t_start = 4 and t_end = "17 / 4" and ev = None and takanami_margin = 5]
  by (simp add: scenario_defs)

subsection \<open>C5: the coupling of the two bounds\<close>

text \<open>
  C5 as stated says that every edit of the start bound to \<open>s\<close> sets the minimum of the end
  bound to \<open>s + minMargin\<close>. Line 202 skips the update when the edited time falls on the
  sample already stored: at 5 Hz the times 1000 ms and 1125 ms give \<open>1.0 * 5 = 5\<close> and
  \<open>1.125 * 5 = 5.625\<close>, both sample 5, so after an edit to 1000 ms an edit to 1125 ms leaves
  the minimum at 1500 ms, not 1625 ms. All these numbers are doubles: nothing is rounded.
\<close>

theorem start_edit_skipped_counterexample:
  "TakanamiDialog_init exact coarse_document 2 6 None 5 = Inr coarse_dialog \<and>
   dlg_start (on_start_point_changed exact coarse_dialog 1000) = 5 \<and>
   minimum_time (end_point_spinbox
      (on_start_point_changed exact (on_start_point_changed exact coarse_dialog 1000) 1125))
     = 1000 + MINIMUM_MARGIN_IN_SECS * 1000 \<and>
   minimum_time (end_point_spinbox
      (on_start_point_changed exact (on_start_point_changed exact coarse_dialog 1000) 1125))
     \<noteq> 1125 + MINIMUM_MARGIN_IN_SECS * 1000"
proof -
  have "\<lfloor>45 / 8 :: rat\<rfloor> = 5"
    by (simp add: floor_eq_iff)
  then show ?thesis
    by (simp add: coarse_dialog_init)
      (simp add: edit_defs coarse_dialog_def coarse_document_def scenario_defs)
qed

text \<open>
  C5, amended: for every rounding of the floating point unit, an edit of the start bound
  to the time \<open>s\<close> (in milliseconds) whose sample index, as line 200 computes it, differs
  from the stored start sets the minimum of the end bound to \<open>s + 500\<close>; an
  edit whose sample index equals the stored start changes nothing. In both cases the stored
  start is the sample index of \<open>s\<close> afterwards, the stored end, the time shown by the end
  spin box and the event time are unchanged, and a second identical edit changes nothing.
  The same holds for an edit of the end bound to \<open>e\<close>, with the maximum of the start bound
  set to \<open>e - 500\<close>.
\<close>

theorem bound_edit_coupling:
  "(dlg_start d \<noteq> of_int (py_int (max 0 (fl_mul rnd (fl_div rnd (of_int s) 1000)
                                            (fs (dlg_record d))))) \<longrightarrow>
      minimum_time (end_point_spinbox (on_start_point_changed rnd d s)) =
        of_int s + MINIMUM_MARGIN_IN_SECS * 1000) \<and>
   (dlg_start d = of_int (py_int (max 0 (fl_mul rnd (fl_div rnd (of_int s) 1000)
                                            (fs (dlg_record d))))) \<longrightarrow>
      on_start_point_changed rnd d s = d) \<and>
   dlg_start (on_start_point_changed rnd d s) =
     of_int (py_int (max 0 (fl_mul rnd (fl_div rnd (of_int s) 1000)
                                            (fs (dlg_record d))))) \<and>
   dlg_end (on_start_point_changed rnd d s) = dlg_end d \<and>
   edit_time (end_point_spinbox (on_start_point_changed rnd d s)) =
     edit_time (end_point_spinbox d) \<and>
   event_time (on_start_point_changed rnd d s) = event_time d \<and>
   on_start_point_changed rnd (on_start_point_changed rnd d s) s =
     on_start_point_changed rnd d s \<and>
   (dlg_end d \<noteq> of_int (py_int (min (signal_len (dlg_record d))
                                  (fl_mul rnd (fl_div rnd (of_int e) 1000) (fs (dlg_record d))))) \<longrightarrow>
      maximum_time (start_point_spinbox (on_end_point_changed rnd d e)) =
        of_int e - MINIMUM_MARGIN_IN_SECS * 1000) \<and>
   (dlg_end d = of_int (py_int (min (signal_len (dlg_record d))
                                  (fl_mul rnd (fl_div rnd (of_int e) 1000) (fs (dlg_record d))))) \<longrightarrow>
      on_end_point_changed rnd d e = d) \<and>
   dlg_end (on_end_point_changed rnd d e) =
     of_int (py_int (min (signal_len (dlg_record d))
                       (fl_mul rnd (fl_div rnd (of_int e) 1000) (fs (dlg_record d))))) \<and>
   dlg_start (on_end_point_changed rnd d e) = dlg_start d \<and>
   edit_time (start_point_spinbox (on_end_point_changed rnd d e)) =
     edit_time (start_point_spinbox d) \<and>
   event_time (on_end_point_changed rnd d e) = event_time d \<and>
   on_end_point_changed rnd (on_end_point_changed rnd d e) e = on_end_point_changed rnd d e"
proof -
  have a: "dlg_start d \<noteq> of_int (py_int (max 0 (fl_mul rnd (fl_div rnd (of_int s) 1000)
                                            (fs (dlg_record d))))) \<longrightarrow>
      minimum_time (end_point_spinbox (on_start_point_changed rnd d s)) =
        of_int s + MINIMUM_MARGIN_IN_SECS * 1000"
    by (simp add: edit_defs setMinimumTime_def)
  have b: "dlg_start d = of_int (py_int (max 0 (fl_mul rnd (fl_div rnd (of_int s) 1000)
                                            (fs (dlg_record d))))) \<longrightarrow>
      on_start_point_changed rnd d s = d"
    by (simp add: edit_defs)
  have c: "dlg_end d \<noteq> of_int (py_int (min (signal_len (dlg_record d))
                                  (fl_mul rnd (fl_div rnd (of_int e) 1000) (fs (dlg_record d))))) \<longrightarrow>
      maximum_time (start_point_spinbox (on_end_point_changed rnd d e)) =
        of_int e - MINIMUM_MARGIN_IN_SECS * 1000"
    by (simp add: edit_defs setMaximumTime_def)
  have d: "dlg_end d = of_int (py_int (min (signal_len (dlg_record d))
                                  (fl_mul rnd (fl_div rnd (of_int e) 1000) (fs (dlg_record d))))) \<longrightarrow>
      on_end_point_changed rnd d e = d"
    by (simp add: edit_defs)
  from a b c d show ?thesis
    by (simp only: on_start_point_changed_start on_end_point_changed_end
        on_start_point_changed_frame on_end_point_changed_frame
        on_start_point_changed_idem on_end_point_changed_idem simp_thms)
qed

theorem bound_edit_coupling_witness:
  "dlg_start scenario_dialog \<noteq>
     of_int (py_int (max 0 (fl_mul exact (fl_div exact (of_int 1000) 1000)
                              (fs (dlg_record scenario_dialog))))) \<and>
   minimum_time (end_point_spinbox (on_start_point_changed exact scenario_dialog 1000)) = 1500 \<and>
   dlg_start (on_start_point_changed exact scenario_dialog 0) = 0 \<and>
   on_start_point_changed exact scenario_dialog 0 = scenario_dialog \<and>
   dlg_end scenario_dialog \<noteq>
     of_int (py_int (min (signal_len (dlg_record scenario_dialog))
                      (fl_mul exact (fl_div exact (of_int 9000) 1000)
                         (fs (dlg_record scenario_dialog))))) \<and>
   maximum_time (start_point_spinbox (on_end_point_changed exact scenario_dialog 9000)) = 8500 \<and>
   on_end_point_changed exact scenario_dialog 10000 = scenario_dialog"
  using bound_edit_coupling [where rnd = exact and d = scenario_dialog and s = 1000 and e = 9000]
    bound_edit_coupling [where rnd = exact and d = scenario_dialog and s = 0 and e = 10000]
  by (simp add: scenario_dialog_def scenario_defs)

subsection \<open>C7: the invariant of the window\<close>

text \<open>
  C7 as stated includes \<open>end < N\<close> after construction. \<^verbatim>\<open>set_margin\<close>, which the
  constructor calls, clamps the end to \<open>N\<close> itself (line 257): for the window from 94 to 96
  seconds of 10000 samples at 100 Hz and the default margin the dialog holds
  \<open>end = 10000 = N\<close>.
\<close>

theorem window_end_reaches_N_counterexample:
  "TakanamiDialog_init exact scenario_document 94 96 None 5 = Inr late_dialog \<and>
   dlg_end late_dialog = signal_len (dlg_record late_dialog) \<and>
   \<not> SignalWindow_invariant late_dialog"
  by (simp add: late_dialog_init)
    (simp add: SignalWindow_invariant_def late_dialog_def scenario_defs)

text \<open>
  C7, amended: after construction, and after \<^verbatim>\<open>set_margin\<close> on a dialog where the
  window lies in the signal and the event time lies inside the window, the window
  satisfies \<open>0 \<le> start < N\<close>, \<open>start < end \<le> N\<close> and \<open>end - start \<ge> 0.5 * fs\<close>; the end may
  be \<open>N\<close> and the bounds are not promised to be integers. An edit of the start bound
  stores an integer sample that is at least 0, an edit of the end bound an integer sample
  that is at most \<open>N\<close>, and each leaves the other bound as it is; the handlers do not
  compare the new bound with the other one.
\<close>

theorem window_invariant_kept:
  "(TakanamiDialog_init rnd doc t_start t_end ev takanami_margin = Inr d \<longrightarrow>
      window_in_signal d) \<and>
   (window_in_signal d \<and> EventTime_invariant d \<and> set_margin d m = Inr d' \<longrightarrow>
      window_in_signal d') \<and>
   is_index (dlg_start (on_start_point_changed rnd d ms)) \<and>
   0 \<le> dlg_start (on_start_point_changed rnd d ms) \<and>
   dlg_end (on_start_point_changed rnd d ms) = dlg_end d \<and>
   is_index (dlg_end (on_end_point_changed rnd d ms)) \<and>
   dlg_end (on_end_point_changed rnd d ms) \<le> signal_len (dlg_record d) \<and>
   dlg_start (on_end_point_changed rnd d ms) = dlg_start d"
proof -
  have a: "TakanamiDialog_init rnd doc t_start t_end ev takanami_margin = Inr d \<longrightarrow>
      window_in_signal d"
    using TakanamiDialog_init_invariants(1) by blast
  have b: "window_in_signal d \<and> EventTime_invariant d \<and> set_margin d m = Inr d' \<longrightarrow>
      window_in_signal d'"
    using set_margin_invariants(1) by blast
  have c: "is_index (dlg_start (on_start_point_changed rnd d ms))"
    "is_index (dlg_end (on_end_point_changed rnd d ms))"
    by (simp_all only: on_start_point_changed_start on_end_point_changed_end is_index_of_int)
  have "0 \<le> py_int (max 0 (fl_mul rnd (fl_div rnd (of_int ms) 1000) (fs (dlg_record d))))"
    by (rule py_int_nonneg) simp
  then have e: "0 \<le> dlg_start (on_start_point_changed rnd d ms)"
    by (simp only: on_start_point_changed_start of_int_0_le_iff)
  have "py_int (min (signal_len (dlg_record d)) (fl_mul rnd (fl_div rnd (of_int ms) 1000) (fs (dlg_record d))))
      \<le> int (length (signal (dlg_record d)))"
    by (rule py_int_le) (simp add: signal_len_def)
  then have "rat_of_int (py_int (min (signal_len (dlg_record d))
        (fl_mul rnd (fl_div rnd (of_int ms) 1000) (fs (dlg_record d))))) \<le> signal_len (dlg_record d)"
    unfolding signal_len_def by (metis of_int_le_iff of_int_of_nat_eq)
  then have f: "dlg_end (on_end_point_changed rnd d ms) \<le> signal_len (dlg_record d)"
    by (simp only: on_end_point_changed_end)
  from a b c e f show ?thesis
    by (simp only: on_start_point_changed_frame on_end_point_changed_frame simp_thms)
qed

theorem window_invariant_kept_witness:
  "TakanamiDialog_init exact scenario_document 4 6 None 5 = Inr scenario_dialog \<and>
   window_in_signal scenario_dialog \<and> EventTime_invariant scenario_dialog \<and>
   set_margin scenario_dialog 50 =
     Inr (scenario_dialog\<lparr>dlg_start := 450, dlg_end := 550,
            start_point_spinbox := \<lparr>edit_time = 4500, minimum_time = 0, maximum_time = 99500\<rparr>,
            end_point_spinbox := \<lparr>edit_time = 5500, minimum_time = 500, maximum_time = 100000\<rparr>\<rparr>) \<and>
   window_in_signal (scenario_dialog\<lparr>dlg_start := 450, dlg_end := 550,
            start_point_spinbox := \<lparr>edit_time = 4500, minimum_time = 0, maximum_time = 99500\<rparr>,
            end_point_spinbox := \<lparr>edit_time = 5500, minimum_time = 500, maximum_time = 100000\<rparr>\<rparr>)"
proof -
  have h1: "TakanamiDialog_init exact scenario_document 4 6 None 5 = Inr scenario_dialog"
    by (rule scenario_dialog_init)
  have h2: "EventTime_invariant scenario_dialog"
    by (simp add: EventTime_invariant_def scenario_dialog_def)
  have h3: "set_margin scenario_dialog 50 =
     Inr (scenario_dialog\<lparr>dlg_start := 450, dlg_end := 550,
            start_point_spinbox := \<lparr>edit_time = 4500, minimum_time = 0, maximum_time = 99500\<rparr>,
            end_point_spinbox := \<lparr>edit_time = 5500, minimum_time = 500, maximum_time = 100000\<rparr>\<rparr>)"
    by (simp add: set_margin_def Let_def scenario_dialog_def scenario_defs)
  note kept = window_invariant_kept [where rnd = exact and doc = scenario_document and t_start = 4 and t_end = 6
      and ev = None and takanami_margin = 5 and d = scenario_dialog and m = 50]
  from kept h1 h2 h3 show ?thesis
    by simp
qed

subsection \<open>C8: the invariant of the event time\<close>

text \<open>
  C8 as stated says that user edits of the bounds keep \<open>start < event_time < end\<close>. The
  handlers never look at \<open>event_time\<close>: in the dialog of the scenario (window 0 to 1000,
  event time 500) the start spin box accepts times up to 99500 ms, and an edit to 6000 ms
  stores \<open>start = 600\<close>, beyond the event time.
\<close>

theorem event_time_left_outside_counterexample:
  "TakanamiDialog_init exact scenario_document 4 6 None 5 = Inr scenario_dialog \<and>
   EventTime_invariant scenario_dialog \<and>
   minimum_time (start_point_spinbox scenario_dialog) \<le> 6000 \<and>
   6000 \<le> maximum_time (start_point_spinbox scenario_dialog) \<and>
   dlg_start (on_start_point_changed exact scenario_dialog 6000) = 600 \<and>
   event_time (on_start_point_changed exact scenario_dialog 6000) = 500 \<and>
   \<not> EventTime_invariant (on_start_point_changed exact scenario_dialog 6000)"
  by (simp add: scenario_dialog_init)
    (simp add: EventTime_invariant_def edit_defs scenario_dialog_def scenario_defs)

text \<open>
  C8, amended: for every rounding of the floating point unit, \<open>start < event_time < end\<close>
  holds after construction and is preserved by \<^verbatim>\<open>set_margin\<close> on a dialog whose window
  lies in the signal. The edits of the bounds and the arrival of a result store their
  value unchecked, the edits the sample that lines 200 and 209 compute: after an edit of
  the start the invariant holds exactly when the new start sample is below the event time
  and the event
  time below the end, after an edit of the end exactly when the start is below the event
  time and the event time below the new end sample, and after a result exactly when the
  reported time lies strictly between start and end.
\<close>

theorem event_time_invariant_kept:
  "(TakanamiDialog_init rnd doc t_start t_end ev takanami_margin = Inr d \<longrightarrow>
      EventTime_invariant d) \<and>
   (window_in_signal d \<and> EventTime_invariant d \<and> set_margin d m = Inr d' \<longrightarrow>
      EventTime_invariant d') \<and>
   (EventTime_invariant (on_start_point_changed rnd d ms) \<longleftrightarrow>
      rat_of_int (py_int (max 0 (fl_mul rnd (fl_div rnd (of_int ms) 1000)
                                   (fs (dlg_record d)))))
        < of_int (event_time d) \<and>
      of_int (event_time d) < dlg_end d) \<and>
   (EventTime_invariant (on_end_point_changed rnd d ms) \<longleftrightarrow>
      dlg_start d < of_int (event_time d) \<and>
      of_int (event_time d) <
        rat_of_int (py_int (min (signal_len (dlg_record d))
                              (fl_mul rnd (fl_div rnd (of_int ms) 1000)
                                 (fs (dlg_record d)))))) \<and>
   (on_position_estimated d t aic n0_aic = Inr d'' \<longrightarrow>
      (EventTime_invariant d'' \<longleftrightarrow> dlg_start d < of_int t \<and> of_int t < dlg_end d))"
proof -
  have a: "TakanamiDialog_init rnd doc t_start t_end ev takanami_margin = Inr d \<longrightarrow>
      EventTime_invariant d"
    using TakanamiDialog_init_invariants(2) by blast
  have b: "window_in_signal d \<and> EventTime_invariant d \<and> set_margin d m = Inr d' \<longrightarrow>
      EventTime_invariant d'"
    using set_margin_invariants(2) by blast
  have c: "on_position_estimated d t aic n0_aic = Inr d'' \<longrightarrow>
      (EventTime_invariant d'' \<longleftrightarrow> dlg_start d < of_int t \<and> of_int t < dlg_end d)"
    by (auto simp: on_position_estimated_def Let_def EventTime_invariant_def split: if_splits)
  from a b c show ?thesis
    by (simp only: EventTime_invariant_def on_start_point_changed_start
        on_end_point_changed_end on_start_point_changed_frame on_end_point_changed_frame
        simp_thms)
qed

theorem event_time_invariant_kept_witness:
  "TakanamiDialog_init exact scenario_document 4 6 None 5 = Inr scenario_dialog \<and>
   window_in_signal scenario_dialog \<and> EventTime_invariant scenario_dialog \<and>
   set_margin scenario_dialog 50 =
     Inr (scenario_dialog\<lparr>dlg_start := 450, dlg_end := 550,
            start_point_spinbox := \<lparr>edit_time = 4500, minimum_time = 0, maximum_time = 99500\<rparr>,
            end_point_spinbox := \<lparr>edit_time = 5500, minimum_time = 500, maximum_time = 100000\<rparr>\<rparr>) \<and>
   EventTime_invariant (scenario_dialog\<lparr>dlg_start := 450, dlg_end := 550,
            start_point_spinbox := \<lparr>edit_time = 4500, minimum_time = 0, maximum_time = 99500\<rparr>,
            end_point_spinbox := \<lparr>edit_time = 5500, minimum_time = 500, maximum_time = 100000\<rparr>\<rparr>) \<and>
   on_position_estimated scenario_dialog 520 [] 0 =
     Inr (scenario_dialog\<lparr>event_time := 520, position_label := 5200,
            plotted := Some (520, [], 0)\<rparr>) \<and>
   EventTime_invariant (scenario_dialog\<lparr>event_time := 520, position_label := 5200,
            plotted := Some (520, [], 0)\<rparr>)"
proof -
  have h1: "TakanamiDialog_init exact scenario_document 4 6 None 5 = Inr scenario_dialog"
    by (rule scenario_dialog_init)
  have h2: "window_in_signal scenario_dialog"
    by (simp add: window_in_signal_def scenario_dialog_def scenario_defs)
  have h3: "set_margin scenario_dialog 50 =
     Inr (scenario_dialog\<lparr>dlg_start := 450, dlg_end := 550,
            start_point_spinbox := \<lparr>edit_time = 4500, minimum_time = 0, maximum_time = 99500\<rparr>,
            end_point_spinbox := \<lparr>edit_time = 5500, minimum_time = 500, maximum_time = 100000\<rparr>\<rparr>)"
    by (simp add: set_margin_def Let_def scenario_dialog_def scenario_defs)
  have h4: "on_position_estimated scenario_dialog 520 [] 0 =
     Inr (scenario_dialog\<lparr>event_time := 520, position_label := 5200,
            plotted := Some (520, [], 0)\<rparr>)"
    by (simp add: on_position_estimated_def Let_def scenario_dialog_def scenario_defs)
  have h5: "dlg_start scenario_dialog < rat_of_int 520 \<and> rat_of_int 520 < dlg_end scenario_dialog"
    by (simp add: scenario_dialog_def)
  note kept = event_time_invariant_kept [where rnd = exact and doc = scenario_document and t_start = 4
      and t_end = 6 and ev = None and takanami_margin = 5 and d = scenario_dialog and m = 50
      and t = 520 and aic = "[]" and ?n0_aic = 0]
  from kept h1 h2 h3 h4 h5 show ?thesis
    by simp
qed

end
